theory Spec2Isabelle
  imports Complex_Main
begin

unbundle bit_operations_syntax

section \<open>Values shared by the components\<close>

text \<open>
  A JavaScript \<^verbatim>\<open>number\<close> is modelled by an exact rational: the viewport offset is
  fractional while a smooth scroll runs, and the arithmetic of the source is read as exact.
  The non-finite values (NaN, the infinities) are outside this type; where the source can
  produce one (a division by zero) the model has a branch of its own for it.
  Cell coordinates are integers. A piece of text read from the grid is the list of its code
  points; a string travelling to the remote process is a \<^typ>\<open>string\<close>.
\<close>

type_synonym number = rat

type_synonym jstext = "nat list"

datatype error = Error string | RangeError | TypeError | RuntimeError

text \<open>
  \<^verbatim>\<open>String.fromCodePoint\<close> raises a RangeError above U+10FFFF.
\<close>

definition fromCodePoint :: "nat \<Rightarrow> error + jstext" where
  "fromCodePoint cp = (if cp \<le> 0x10FFFF then Inr [cp] else Inl RangeError)"

section \<open>The screen-grid engine, at its interface (src/lib/ghostty.ts)\<close>

text \<open>
  Of a cell the selection code reads the code point and the width (0 for the second half of
  a wide character). \<open>wasm_get_line\<close> stands for the engine's own row lookup, with
  \<open>None\<close> for a negative count; \<open>getLine\<close> is the wrapper of the source, which
  rejects a row outside \<open>0 .. rows - 1\<close> before asking the engine.
\<close>

record GhosttyCell =
  codepoint :: nat
  width :: nat

record GhosttyTerminal =
  wasm_cols :: int
  wasm_rows :: int
  wasm_get_line :: "int \<Rightarrow> GhosttyCell list option"
  wasm_scrollback_length :: nat
  wasm_responses :: "string list"
  wasm_bracketed_paste :: bool

definition getLine :: "GhosttyTerminal \<Rightarrow> int \<Rightarrow> GhosttyCell list option" where
  "getLine w y = (if y < 0 \<or> y \<ge> wasm_rows w then None else wasm_get_line w y)"

text \<open>Indexing a JavaScript array outside its bounds yields \<^verbatim>\<open>undefined\<close>.\<close>

definition at_index :: "'a list \<Rightarrow> int \<Rightarrow> 'a option" where
  "at_index xs i = (if 0 \<le> i \<and> i < int (length xs) then Some (xs ! nat i) else None)"

section \<open>Selection manager (selection-manager.ts)\<close>

record CellPos =
  col :: int
  row :: int

record SelectionCoordinates =
  startCol :: int
  startRow :: int
  endCol :: int
  endRow :: int

text \<open>
  The manager's state. \<open>selectionChangedFired\<close> counts the calls of
  \<^verbatim>\<open>selectionChangedEmitter.fire()\<close>, \<open>clipboard\<close> lists the texts handed to
  \<^verbatim>\<open>copyToClipboard\<close>. Mouse handlers receive the cell that \<^verbatim>\<open>pixelToCell\<close>
  computed from the pointer position.
\<close>

record SelectionManager =
  sm_wasmTerm :: GhosttyTerminal
  selectionStart :: "CellPos option"
  selectionEnd :: "CellPos option"
  isSelecting :: bool
  previousSelection :: "SelectionCoordinates option"
  selectionChangedFired :: nat
  clipboard :: "jstext list"

definition hasSelection :: "SelectionManager \<Rightarrow> bool" where
  "hasSelection s = (selectionStart s \<noteq> None \<and> selectionEnd s \<noteq> None)"

definition normalizeSelection :: "SelectionManager \<Rightarrow> SelectionCoordinates option" where
  "normalizeSelection s =
     (case selectionStart s of
        None \<Rightarrow> None
      | Some a \<Rightarrow>
          (case selectionEnd s of
             None \<Rightarrow> None
           | Some b \<Rightarrow>
               if row a > row b \<or> (row a = row b \<and> col a > col b)
               then Some \<lparr>startCol = col b, startRow = row b, endCol = col a, endRow = row a\<rparr>
               else Some \<lparr>startCol = col a, startRow = row a, endCol = col b, endRow = row b\<rparr>))"

text \<open>
  The inner loop of \<^verbatim>\<open>getSelection\<close>: columns \<open>c .. colEnd\<close> of one line, appended
  to the text collected so far.
\<close>

function cols_loop :: "GhosttyCell list \<Rightarrow> int \<Rightarrow> int \<Rightarrow> jstext \<Rightarrow> error + jstext" where
  "cols_loop line c colEnd txt =
     (if c \<le> colEnd then
        (case at_index line c of
           None \<Rightarrow> cols_loop line (c + 1) colEnd txt
         | Some cell \<Rightarrow>
             if width cell = 0 then cols_loop line (c + 1) colEnd txt
             else if codepoint cell \<noteq> 0 then
               (case fromCodePoint (codepoint cell) of
                  Inl e \<Rightarrow> Inl e
                | Inr ch \<Rightarrow> cols_loop line (c + 1) colEnd (txt @ ch))
             else cols_loop line (c + 1) colEnd (txt @ [32]))
      else Inr txt)"
  by pat_completeness auto
termination
  by (relation "measure (\<lambda>(line, c, colEnd, txt). nat (colEnd + 1 - c))") auto

declare cols_loop.simps [simp del]

text \<open>The outer loop: rows \<open>r .. endRow\<close>; a row the grid does not provide is skipped.\<close>

function rows_loop :: "GhosttyTerminal \<Rightarrow> SelectionCoordinates \<Rightarrow> int \<Rightarrow> jstext \<Rightarrow> error + jstext" where
  "rows_loop w cs r txt =
     (if r \<le> endRow cs then
        (case getLine w r of
           None \<Rightarrow> rows_loop w cs (r + 1) txt
         | Some line \<Rightarrow>
             (case cols_loop line (if r = startRow cs then startCol cs else 0)
                     (if r = endRow cs then endCol cs else int (length line) - 1) txt of
                Inl e \<Rightarrow> Inl e
              | Inr txt1 \<Rightarrow> rows_loop w cs (r + 1) (if r < endRow cs then txt1 @ [10] else txt1)))
      else Inr txt)"
  by pat_completeness auto
termination
  by (relation "measure (\<lambda>(w, cs, r, txt). nat (endRow cs + 1 - r))") auto

declare rows_loop.simps [simp del]

definition getSelection :: "SelectionManager \<Rightarrow> error + jstext" where
  "getSelection s =
     (case normalizeSelection s of
        None \<Rightarrow> Inr []
      | Some cs \<Rightarrow> rows_loop (sm_wasmTerm s) cs (startRow cs) [])"

definition clearSelection :: "SelectionManager \<Rightarrow> SelectionManager" where
  "clearSelection s =
     (if \<not> hasSelection s then s
      else s\<lparr>previousSelection := normalizeSelection s,
             selectionStart := None, selectionEnd := None, isSelecting := False\<rparr>)"

definition fire_selectionChanged :: "SelectionManager \<Rightarrow> SelectionManager" where
  "fire_selectionChanged s = s\<lparr>selectionChangedFired := Suc (selectionChangedFired s)\<rparr>"

definition selectAll :: "SelectionManager \<Rightarrow> SelectionManager" where
  "selectAll s =
     fire_selectionChanged
       (s\<lparr>selectionStart := Some \<lparr>col = 0, row = 0\<rparr>,
          selectionEnd := Some \<lparr>col = wasm_cols (sm_wasmTerm s) - 1,
                                 row = wasm_rows (sm_wasmTerm s) - 1\<rparr>\<rparr>)"

text \<open>
  The wrapping loop of \<^verbatim>\<open>select\<close>, \<^verbatim>\<open>while (endCol >= dims.cols)\<close>. It leaves
  when the column count is positive; with a column count of zero or less and
  \<open>endCol \<ge> cols\<close> the source never leaves it, which \<open>select\<close> below returns as
  \<open>None\<close>.
\<close>

function wrap_loop :: "int \<Rightarrow> int \<Rightarrow> int \<Rightarrow> int \<times> int" where
  "wrap_loop cols0 ec er =
     (if 0 < cols0 \<and> ec \<ge> cols0 then wrap_loop cols0 (ec - cols0) (er + 1) else (ec, er))"
  by pat_completeness auto
termination
  by (relation "measure (\<lambda>(cols0, ec, er). nat ec)") auto

declare wrap_loop.simps [simp del]

definition select :: "SelectionManager \<Rightarrow> int \<Rightarrow> int \<Rightarrow> int \<Rightarrow> SelectionManager option" where
  "select s column0 row0 len =
     (let cols0 = wasm_cols (sm_wasmTerm s);
          rows0 = wasm_rows (sm_wasmTerm s);
          r = max 0 (min row0 (rows0 - 1));
          c = max 0 (min column0 (cols0 - 1))
      in if cols0 \<le> 0 \<and> c + len - 1 \<ge> cols0 then None
         else
           (case wrap_loop cols0 (c + len - 1) r of
              (ec, er) \<Rightarrow>
                Some (fire_selectionChanged
                  (s\<lparr>selectionStart := Some \<lparr>col = c, row = r\<rparr>,
                     selectionEnd := Some \<lparr>col = max 0 (min ec (cols0 - 1)),
                                            row = min er (rows0 - 1)\<rparr>\<rparr>))))"

definition selectLines :: "SelectionManager \<Rightarrow> int \<Rightarrow> int \<Rightarrow> SelectionManager" where
  "selectLines s start0 end0 =
     (let cols0 = wasm_cols (sm_wasmTerm s);
          rows0 = wasm_rows (sm_wasmTerm s);
          a = max 0 (min start0 (rows0 - 1));
          b = max 0 (min end0 (rows0 - 1));
          lo = (if a > b then b else a);
          hi = (if a > b then a else b)
      in fire_selectionChanged
           (s\<lparr>selectionStart := Some \<lparr>col = 0, row = lo\<rparr>,
              selectionEnd := Some \<lparr>col = cols0 - 1, row = hi\<rparr>\<rparr>))"

definition clearPreviousSelection :: "SelectionManager \<Rightarrow> SelectionManager" where
  "clearPreviousSelection s = s\<lparr>previousSelection := None\<rparr>"

text \<open>
  Word lookup for the double click. \<^verbatim>\<open>/[\w-]/\<close> accepts the ASCII letters and digits,
  the underscore and the hyphen.
\<close>

definition word_char :: "nat \<Rightarrow> bool" where
  "word_char cp =
     ((48 \<le> cp \<and> cp \<le> 57) \<or> (65 \<le> cp \<and> cp \<le> 90) \<or> cp = 95
      \<or> (97 \<le> cp \<and> cp \<le> 122) \<or> cp = 45)"

definition isWordChar :: "GhosttyCell option \<Rightarrow> error + bool" where
  "isWordChar c =
     (case c of
        None \<Rightarrow> Inr False
      | Some cell \<Rightarrow>
          if codepoint cell = 0 then Inr False
          else (case fromCodePoint (codepoint cell) of
                  Inl e \<Rightarrow> Inl e
                | Inr ch \<Rightarrow> Inr (list_ex word_char ch)))"

function word_start :: "GhosttyCell list \<Rightarrow> int \<Rightarrow> error + int" where
  "word_start line sc =
     (if sc > 0 then
        (case isWordChar (at_index line (sc - 1)) of
           Inl e \<Rightarrow> Inl e
         | Inr b \<Rightarrow> if b then word_start line (sc - 1) else Inr sc)
      else Inr sc)"
  by pat_completeness auto
termination
  by (relation "measure (\<lambda>(line, sc). nat sc)") auto

declare word_start.simps [simp del]

function word_end :: "GhosttyCell list \<Rightarrow> int \<Rightarrow> error + int" where
  "word_end line ec =
     (if ec < int (length line) - 1 then
        (case isWordChar (at_index line (ec + 1)) of
           Inl e \<Rightarrow> Inl e
         | Inr b \<Rightarrow> if b then word_end line (ec + 1) else Inr ec)
      else Inr ec)"
  by pat_completeness auto
termination
  by (relation "measure (\<lambda>(line, ec). nat (int (length line) - ec))") auto

declare word_end.simps [simp del]

definition getWordAtCell :: "GhosttyTerminal \<Rightarrow> int \<Rightarrow> int \<Rightarrow> error + (int \<times> int) option" where
  "getWordAtCell w c r =
     (case getLine w r of
        None \<Rightarrow> Inr None
      | Some line \<Rightarrow>
          (case isWordChar (at_index line c) of
             Inl e \<Rightarrow> Inl e
           | Inr b \<Rightarrow>
               if \<not> b then Inr None
               else (case word_start line c of
                       Inl e \<Rightarrow> Inl e
                     | Inr sc \<Rightarrow>
                         (case word_end line c of
                            Inl e \<Rightarrow> Inl e
                          | Inr ec \<Rightarrow> Inr (Some (sc, ec))))))"

text \<open>
  The mouse handlers. A handler that raises is abandoned where it stands: the state it leaves
  is the state as changed up to the raise.
\<close>

definition copy_and_fire :: "SelectionManager \<Rightarrow> SelectionManager" where
  "copy_and_fire s =
     (case getSelection s of
        Inl e \<Rightarrow> s
      | Inr txt \<Rightarrow>
          if txt \<noteq> [] then fire_selectionChanged (s\<lparr>clipboard := clipboard s @ [txt]\<rparr>)
          else s)"

definition mouseDown :: "SelectionManager \<Rightarrow> CellPos \<Rightarrow> int \<Rightarrow> SelectionManager" where
  "mouseDown s cell button =
     (if button = 0 then
        (if hasSelection s then clearSelection s else s)
          \<lparr>selectionStart := Some cell, selectionEnd := Some cell, isSelecting := True\<rparr>
      else s)"

definition mouseMove :: "SelectionManager \<Rightarrow> CellPos \<Rightarrow> SelectionManager" where
  "mouseMove s cell =
     (if isSelecting s
      then s\<lparr>previousSelection := normalizeSelection s, selectionEnd := Some cell\<rparr>
      else s)"

definition mouseUp :: "SelectionManager \<Rightarrow> SelectionManager" where
  "mouseUp s = (if isSelecting s then copy_and_fire (s\<lparr>isSelecting := False\<rparr>) else s)"

definition dblClick :: "SelectionManager \<Rightarrow> CellPos \<Rightarrow> SelectionManager" where
  "dblClick s cell =
     (case getWordAtCell (sm_wasmTerm s) (col cell) (row cell) of
        Inl e \<Rightarrow> s
      | Inr None \<Rightarrow> s
      | Inr (Some (sc, ec)) \<Rightarrow>
          copy_and_fire
            (s\<lparr>selectionStart := Some \<lparr>col = sc, row = row cell\<rparr>,
               selectionEnd := Some \<lparr>col = ec, row = row cell\<rparr>\<rparr>))"

text \<open>
  Everything that can reach the manager: the listeners it registers and its public methods.
  The context-menu listener only moves the hidden text control, which is not part of this
  state. \<open>sm_step\<close> is \<open>None\<close> where \<open>select\<close> does not return.
\<close>

datatype sm_event =
    MouseDown CellPos int
  | MouseMove CellPos
  | MouseUp
  | DblClick CellPos
  | ContextMenu
  | CallGetSelection
  | CallClearSelection
  | CallSelectAll
  | CallSelect int int int
  | CallSelectLines int int
  | CallClearPreviousSelection

fun sm_step :: "SelectionManager \<Rightarrow> sm_event \<Rightarrow> SelectionManager option" where
  "sm_step s (MouseDown cell button) = Some (mouseDown s cell button)"
| "sm_step s (MouseMove cell) = Some (mouseMove s cell)"
| "sm_step s MouseUp = Some (mouseUp s)"
| "sm_step s (DblClick cell) = Some (dblClick s cell)"
| "sm_step s ContextMenu = Some s"
| "sm_step s CallGetSelection = Some s"
| "sm_step s CallClearSelection = Some (clearSelection s)"
| "sm_step s CallSelectAll = Some (selectAll s)"
| "sm_step s (CallSelect c r len) = select s c r len"
| "sm_step s (CallSelectLines a b) = Some (selectLines s a b)"
| "sm_step s CallClearPreviousSelection = Some (clearPreviousSelection s)"

text \<open>
  The occasions on which the selection-change notification is documented to fire: a mouse
  release that ends a drag over non-empty text, a double click on a word with non-empty
  text, and the three programmatic selection calls.
\<close>

definition nonempty_text :: "SelectionManager \<Rightarrow> bool" where
  "nonempty_text s = (case getSelection s of Inl e \<Rightarrow> False | Inr txt \<Rightarrow> txt \<noteq> [])"

fun notifying :: "SelectionManager \<Rightarrow> sm_event \<Rightarrow> bool" where
  "notifying s MouseUp = (isSelecting s \<and> nonempty_text (s\<lparr>isSelecting := False\<rparr>))"
| "notifying s (DblClick cell) =
     (case getWordAtCell (sm_wasmTerm s) (col cell) (row cell) of
        Inr (Some (sc, ec)) \<Rightarrow>
          nonempty_text (s\<lparr>selectionStart := Some \<lparr>col = sc, row = row cell\<rparr>,
                           selectionEnd := Some \<lparr>col = ec, row = row cell\<rparr>\<rparr>)
      | _ \<Rightarrow> False)"
| "notifying s CallSelectAll = True"
| "notifying s (CallSelect c r len) = True"
| "notifying s (CallSelectLines a b) = True"
| "notifying s _ = False"

text \<open>
  The text extraction in the words of the specification: the rows of the range in order,
  of each row the cells of its column range (the start column on the first row, the end
  column on the last, the whole line otherwise) without the zero-width cells, an empty cell
  as a space, and the rows joined by single newlines.
\<close>

definition render_cell :: "GhosttyCell \<Rightarrow> nat" where
  "render_cell c = (if codepoint c = 0 then 32 else codepoint c)"

definition cells_between :: "GhosttyCell list \<Rightarrow> int \<Rightarrow> int \<Rightarrow> GhosttyCell list" where
  "cells_between line c0 c1 =
     map (\<lambda>i. line ! nat i) (filter (\<lambda>i. 0 \<le> i \<and> i < int (length line)) [c0..c1])"

definition spec_row_text :: "GhosttyCell list \<Rightarrow> int \<Rightarrow> int \<Rightarrow> jstext" where
  "spec_row_text line c0 c1 = map render_cell (filter (\<lambda>c. width c \<noteq> 0) (cells_between line c0 c1))"

fun join_newline :: "jstext list \<Rightarrow> jstext" where
  "join_newline [] = []"
| "join_newline [x] = x"
| "join_newline (x # y # ys) = x @ [10] @ join_newline (y # ys)"

definition spec_row :: "GhosttyTerminal \<Rightarrow> SelectionCoordinates \<Rightarrow> int \<Rightarrow> jstext" where
  "spec_row w cs r =
     (case getLine w r of
        None \<Rightarrow> []
      | Some line \<Rightarrow>
          spec_row_text line (if r = startRow cs then startCol cs else 0)
            (if r = endRow cs then endCol cs else int (length line) - 1))"

definition spec_selection_text :: "GhosttyTerminal \<Rightarrow> SelectionCoordinates \<Rightarrow> jstext" where
  "spec_selection_text w cs = join_newline (map (spec_row w cs) [startRow cs..endRow cs])"

text \<open>Every code point of the rows \<open>a .. b\<close> is one that \<^verbatim>\<open>String.fromCodePoint\<close> accepts.\<close>

definition valid_codepoints :: "GhosttyTerminal \<Rightarrow> int \<Rightarrow> int \<Rightarrow> bool" where
  "valid_codepoints w a b =
     list_all (\<lambda>r. case getLine w r of
                      None \<Rightarrow> True
                    | Some line \<Rightarrow> list_all (\<lambda>c. codepoint c \<le> 0x10FFFF) line) [a..b]"

definition rows_present :: "GhosttyTerminal \<Rightarrow> int \<Rightarrow> int \<Rightarrow> bool" where
  "rows_present w a b = list_all (\<lambda>r. getLine w r \<noteq> None) [a..b]"

section \<open>Input handler (input-handler.ts)\<close>

text \<open>
  The members of the \<^verbatim>\<open>Key\<close> enumeration are declared in a module that is not among the
  sources; a member is represented by its name, two members being the same key exactly
  when they have the same name. \<open>Inherited\<close> stands for what a lookup in the key table
  yields for a property name that the table inherits from \<^verbatim>\<open>Object.prototype\<close>: a value
  that is neither \<^verbatim>\<open>null\<close> nor a key.
\<close>

datatype Key = Key string | Inherited string

definition Object_prototype_names :: "string list" where
  "Object_prototype_names =
     [''constructor'', ''hasOwnProperty'', ''isPrototypeOf'', ''propertyIsEnumerable'',
      ''toLocaleString'', ''toString'', ''valueOf'', ''__proto__'', ''__defineGetter__'',
      ''__defineSetter__'', ''__lookupGetter__'', ''__lookupSetter__'']"

definition KEY_MAP :: "(string \<times> Key) list" where
  "KEY_MAP =
     [
      (''KeyA'', Key ''A''), (''KeyB'', Key ''B''), (''KeyC'', Key ''C''),
      (''KeyD'', Key ''D''), (''KeyE'', Key ''E''), (''KeyF'', Key ''F''),
      (''KeyG'', Key ''G''), (''KeyH'', Key ''H''), (''KeyI'', Key ''I''),
      (''KeyJ'', Key ''J''), (''KeyK'', Key ''K''), (''KeyL'', Key ''L''),
      (''KeyM'', Key ''M''), (''KeyN'', Key ''N''), (''KeyO'', Key ''O''),
      (''KeyP'', Key ''P''), (''KeyQ'', Key ''Q''), (''KeyR'', Key ''R''),
      (''KeyS'', Key ''S''), (''KeyT'', Key ''T''), (''KeyU'', Key ''U''),
      (''KeyV'', Key ''V''), (''KeyW'', Key ''W''), (''KeyX'', Key ''X''),
      (''KeyY'', Key ''Y''), (''KeyZ'', Key ''Z''), (''Digit1'', Key ''ONE''),
      (''Digit2'', Key ''TWO''), (''Digit3'', Key ''THREE''), (''Digit4'', Key ''FOUR''),
      (''Digit5'', Key ''FIVE''), (''Digit6'', Key ''SIX''), (''Digit7'', Key ''SEVEN''),
      (''Digit8'', Key ''EIGHT''), (''Digit9'', Key ''NINE''), (''Digit0'', Key ''ZERO''),
      (''Enter'', Key ''ENTER''), (''Escape'', Key ''ESCAPE''), (''Backspace'', Key ''BACKSPACE''),
      (''Tab'', Key ''TAB''), (''Space'', Key ''SPACE''), (''Minus'', Key ''MINUS''),
      (''Equal'', Key ''EQUAL''), (''BracketLeft'', Key ''BRACKET_LEFT''), (''BracketRight'', Key ''BRACKET_RIGHT''),
      (''Backslash'', Key ''BACKSLASH''), (''Semicolon'', Key ''SEMICOLON''), (''Quote'', Key ''QUOTE''),
      (''Backquote'', Key ''GRAVE''), (''Comma'', Key ''COMMA''), (''Period'', Key ''PERIOD''),
      (''Slash'', Key ''SLASH''), (''CapsLock'', Key ''CAPS_LOCK''), (''F1'', Key ''F1''),
      (''F2'', Key ''F2''), (''F3'', Key ''F3''), (''F4'', Key ''F4''),
      (''F5'', Key ''F5''), (''F6'', Key ''F6''), (''F7'', Key ''F7''),
      (''F8'', Key ''F8''), (''F9'', Key ''F9''), (''F10'', Key ''F10''),
      (''F11'', Key ''F11''), (''F12'', Key ''F12''), (''PrintScreen'', Key ''PRINT_SCREEN''),
      (''ScrollLock'', Key ''SCROLL_LOCK''), (''Pause'', Key ''PAUSE''), (''Insert'', Key ''INSERT''),
      (''Home'', Key ''HOME''), (''PageUp'', Key ''PAGE_UP''), (''Delete'', Key ''DELETE''),
      (''End'', Key ''END''), (''PageDown'', Key ''PAGE_DOWN''), (''ArrowRight'', Key ''RIGHT''),
      (''ArrowLeft'', Key ''LEFT''), (''ArrowDown'', Key ''DOWN''), (''ArrowUp'', Key ''UP''),
      (''NumLock'', Key ''NUM_LOCK''), (''NumpadDivide'', Key ''KP_DIVIDE''), (''NumpadMultiply'', Key ''KP_MULTIPLY''),
      (''NumpadSubtract'', Key ''KP_MINUS''), (''NumpadAdd'', Key ''KP_PLUS''), (''NumpadEnter'', Key ''KP_ENTER''),
      (''Numpad1'', Key ''KP_1''), (''Numpad2'', Key ''KP_2''), (''Numpad3'', Key ''KP_3''),
      (''Numpad4'', Key ''KP_4''), (''Numpad5'', Key ''KP_5''), (''Numpad6'', Key ''KP_6''),
      (''Numpad7'', Key ''KP_7''), (''Numpad8'', Key ''KP_8''), (''Numpad9'', Key ''KP_9''),
      (''Numpad0'', Key ''KP_0''), (''NumpadDecimal'', Key ''KP_PERIOD''), (''IntlBackslash'', Key ''INTL_BACKSLASH''),
      (''ContextMenu'', Key ''CONTEXT_MENU''), (''F13'', Key ''F13''), (''F14'', Key ''F14''),
      (''F15'', Key ''F15''), (''F16'', Key ''F16''), (''F17'', Key ''F17''),
      (''F18'', Key ''F18''), (''F19'', Key ''F19''), (''F20'', Key ''F20''),
      (''F21'', Key ''F21''), (''F22'', Key ''F22''), (''F23'', Key ''F23''),
      (''F24'', Key ''F24'')
     ]"

text \<open>\<^verbatim>\<open>KEY_MAP[code] ?? null\<close>: a plain property lookup on an object literal.\<close>

definition mapKeyCode :: "string \<Rightarrow> Key option" where
  "mapKeyCode c =
     (case map_of KEY_MAP c of
        Some k \<Rightarrow> Some k
      | None \<Rightarrow> if c \<in> set Object_prototype_names then Some (Inherited c) else None)"

text \<open>
  Modelled from the spec: the \<^verbatim>\<open>Mods\<close> flags are declared in the same missing module.
  The specification calls the value a modifier bitmask; the flags are taken as one bit each,
  in the order in which \<^verbatim>\<open>extractModifiers\<close> tests them.
\<close>

definition Mods_NONE :: nat where "Mods_NONE = 0"
definition Mods_SHIFT :: nat where "Mods_SHIFT = 1"
definition Mods_CTRL :: nat where "Mods_CTRL = 2"
definition Mods_ALT :: nat where "Mods_ALT = 4"
definition Mods_SUPER :: nat where "Mods_SUPER = 8"

record KeyboardEvent =
  ke_code :: string
  ke_key :: string
  ke_shiftKey :: bool
  ke_ctrlKey :: bool
  ke_altKey :: bool
  ke_metaKey :: bool
  ke_isComposing :: bool
  ke_keyCode :: nat

record InputEvent =
  ie_inputType :: string
  ie_data :: "string option"
  ie_isComposing :: bool

datatype paste_source = FromPaste | FromBeforeInput

text \<open>
  The handler's state. \<open>encoder\<close> is the external key encoder: given the cursor-key mode
  that was set just before (if a mode callback exists), the key, the modifiers and the
  optional character hint, it returns the encoded string, or \<open>None\<close> when it raises.
  \<open>onCopyCallback\<close> holds what the copy callback answers. \<open>emitted\<close> lists the calls of
  \<^verbatim>\<open>onDataCallback\<close> in order, \<open>keysObserved\<close> those of \<^verbatim>\<open>onKeyCallback\<close>;
  \<open>childNodes\<close> are the node types of the container's children.
  Each handler runs to completion within one reading \<open>now\<close> of the clock, in
  milliseconds. \<^verbatim>\<open>preventDefault\<close> and \<^verbatim>\<open>stopPropagation\<close> act on the browser's
  event and are not part of this state.
\<close>

record InputHandler =
  encoder :: "bool option \<Rightarrow> Key \<Rightarrow> nat \<Rightarrow> string option \<Rightarrow> string option"
  onKeyCallback :: bool
  customKeyEventHandler :: "(KeyboardEvent \<Rightarrow> bool) option"
  getModeCallback :: "(nat \<Rightarrow> bool) option"
  onCopyCallback :: "bool option"
  isComposing :: bool
  ih_isDisposed :: bool
  lastKeyDownData :: "string option"
  lastKeyDownTime :: number
  lastPasteData :: "string option"
  lastPasteTime :: number
  lastPasteSource :: "paste_source option"
  lastCompositionData :: "string option"
  lastCompositionTime :: number
  lastBeforeInputData :: "string option"
  lastBeforeInputTime :: number
  emitted :: "string list"
  keysObserved :: "string list"
  childNodes :: "nat list"

definition BEFORE_INPUT_IGNORE_MS :: number where
  "BEFORE_INPUT_IGNORE_MS = 100"

text \<open>A string is truthy when it is neither \<^verbatim>\<open>null\<close> nor empty.\<close>

definition truthy :: "string option \<Rightarrow> bool" where
  "truthy d = (case d of None \<Rightarrow> False | Some x \<Rightarrow> x \<noteq> [])"

definition onDataCallback :: "InputHandler \<Rightarrow> string \<Rightarrow> InputHandler" where
  "onDataCallback h d = h\<lparr>emitted := emitted h @ [d]\<rparr>"

definition extractModifiers :: "KeyboardEvent \<Rightarrow> nat" where
  "extractModifiers ev =
     (let m0 = Mods_NONE;
          m1 = (if ke_shiftKey ev then m0 OR Mods_SHIFT else m0);
          m2 = (if ke_ctrlKey ev then m1 OR Mods_CTRL else m1);
          m3 = (if ke_altKey ev then m2 OR Mods_ALT else m2)
      in if ke_metaKey ev then m3 OR Mods_SUPER else m3)"

definition isPrintableCharacter :: "KeyboardEvent \<Rightarrow> bool" where
  "isPrintableCharacter ev =
     (if ke_ctrlKey ev \<and> \<not> ke_altKey ev then False
      else if ke_altKey ev \<and> \<not> ke_ctrlKey ev then False
      else if ke_metaKey ev then False
      else length (ke_key ev) = 1)"

definition recordKeyDownData :: "InputHandler \<Rightarrow> string \<Rightarrow> number \<Rightarrow> InputHandler" where
  "recordKeyDownData h d now = h\<lparr>lastKeyDownData := Some d, lastKeyDownTime := now\<rparr>"

definition recordPasteData :: "InputHandler \<Rightarrow> string \<Rightarrow> paste_source \<Rightarrow> number \<Rightarrow> InputHandler" where
  "recordPasteData h d src now =
     h\<lparr>lastPasteData := Some d, lastPasteTime := now, lastPasteSource := Some src\<rparr>"

definition recordBeforeInputData :: "InputHandler \<Rightarrow> string \<Rightarrow> number \<Rightarrow> InputHandler" where
  "recordBeforeInputData h d now = h\<lparr>lastBeforeInputData := Some d, lastBeforeInputTime := now\<rparr>"

definition recordCompositionData :: "InputHandler \<Rightarrow> string \<Rightarrow> number \<Rightarrow> InputHandler" where
  "recordCompositionData h d now = h\<lparr>lastCompositionData := Some d, lastCompositionTime := now\<rparr>"

text \<open>The four de-duplication checks: the answer and the handler as the check leaves it.\<close>

definition shouldIgnoreBeforeInput :: "InputHandler \<Rightarrow> string \<Rightarrow> number \<Rightarrow> bool \<times> InputHandler" where
  "shouldIgnoreBeforeInput h d now =
     (if \<not> truthy (lastKeyDownData h) then (False, h)
      else
        (now - lastKeyDownTime h < BEFORE_INPUT_IGNORE_MS \<and> lastKeyDownData h = Some d,
         h\<lparr>lastKeyDownData := None\<rparr>))"

definition shouldIgnoreBeforeInputFromComposition ::
    "InputHandler \<Rightarrow> string \<Rightarrow> number \<Rightarrow> bool \<times> InputHandler" where
  "shouldIgnoreBeforeInputFromComposition h d now =
     (if \<not> truthy (lastCompositionData h) then (False, h)
      else
        (let isDuplicate =
               (now - lastCompositionTime h < BEFORE_INPUT_IGNORE_MS \<and> lastCompositionData h = Some d)
         in (isDuplicate, if isDuplicate then h\<lparr>lastCompositionData := None\<rparr> else h)))"

definition shouldIgnoreCompositionEnd :: "InputHandler \<Rightarrow> string \<Rightarrow> number \<Rightarrow> bool \<times> InputHandler" where
  "shouldIgnoreCompositionEnd h d now =
     (if \<not> truthy (lastBeforeInputData h) then (False, h)
      else
        (let isDuplicate =
               (now - lastBeforeInputTime h < BEFORE_INPUT_IGNORE_MS \<and> lastBeforeInputData h = Some d)
         in (isDuplicate, if isDuplicate then h\<lparr>lastBeforeInputData := None\<rparr> else h)))"

definition shouldIgnorePasteEvent ::
    "InputHandler \<Rightarrow> string \<Rightarrow> paste_source \<Rightarrow> number \<Rightarrow> bool \<times> InputHandler" where
  "shouldIgnorePasteEvent h d src now =
     (if \<not> truthy (lastPasteData h) then (False, h)
      else if lastPasteSource h = Some src then (False, h)
      else
        (let isDuplicate =
               (now - lastPasteTime h < BEFORE_INPUT_IGNORE_MS \<and> lastPasteData h = Some d)
         in (isDuplicate,
             if isDuplicate then h\<lparr>lastPasteData := None, lastPasteSource := None\<rparr> else h)))"

definition emitPasteData :: "InputHandler \<Rightarrow> string \<Rightarrow> InputHandler" where
  "emitPasteData h txt =
     (if (case getModeCallback h of None \<Rightarrow> False | Some g \<Rightarrow> g 2004)
      then onDataCallback h ([CHR 0x1B] @ ''[200~'' @ txt @ [CHR 0x1B] @ ''[201~'')
      else onDataCallback h txt)"

definition cleanupCompositionTextNodes :: "InputHandler \<Rightarrow> InputHandler" where
  "cleanupCompositionTextNodes h = h\<lparr>childNodes := filter (\<lambda>t. t \<noteq> 3) (childNodes h)\<rparr>"

text \<open>The fixed sequences of the \<^verbatim>\<open>switch\<close> in \<^verbatim>\<open>handleKeyDown\<close>.\<close>

definition simpleOutput :: "Key \<Rightarrow> string option" where
  "simpleOutput k =
     (if k = Key ''ENTER'' then Some [CHR 0x0D]
      else if k = Key ''TAB'' then Some [CHR 0x09]
      else if k = Key ''BACKSPACE'' then Some [CHR 0x7F]
      else if k = Key ''ESCAPE'' then Some [CHR 0x1B]
      else if k = Key ''HOME'' then Some (CHR 0x1B # ''[H'')
      else if k = Key ''END'' then Some (CHR 0x1B # ''[F'')
      else if k = Key ''INSERT'' then Some (CHR 0x1B # ''[2~'')
      else if k = Key ''DELETE'' then Some (CHR 0x1B # ''[3~'')
      else if k = Key ''PAGE_UP'' then Some (CHR 0x1B # ''[5~'')
      else if k = Key ''PAGE_DOWN'' then Some (CHR 0x1B # ''[6~'')
      else if k = Key ''F1'' then Some (CHR 0x1B # ''OP'')
      else if k = Key ''F2'' then Some (CHR 0x1B # ''OQ'')
      else if k = Key ''F3'' then Some (CHR 0x1B # ''OR'')
      else if k = Key ''F4'' then Some (CHR 0x1B # ''OS'')
      else if k = Key ''F5'' then Some (CHR 0x1B # ''[15~'')
      else if k = Key ''F6'' then Some (CHR 0x1B # ''[17~'')
      else if k = Key ''F7'' then Some (CHR 0x1B # ''[18~'')
      else if k = Key ''F8'' then Some (CHR 0x1B # ''[19~'')
      else if k = Key ''F9'' then Some (CHR 0x1B # ''[20~'')
      else if k = Key ''F10'' then Some (CHR 0x1B # ''[21~'')
      else if k = Key ''F11'' then Some (CHR 0x1B # ''[23~'')
      else if k = Key ''F12'' then Some (CHR 0x1B # ''[24~'')
      else None)"

definition toLowerCase :: "string \<Rightarrow> string" where
  "toLowerCase str =
     map (\<lambda>c. if 65 \<le> (of_char c :: nat) \<and> (of_char c :: nat) \<le> 90
               then char_of ((of_char c :: nat) + 32) else c) str"

definition encodeKey :: "InputHandler \<Rightarrow> KeyboardEvent \<Rightarrow> Key \<Rightarrow> nat \<Rightarrow> number \<Rightarrow> InputHandler" where
  "encodeKey h ev k mods now =
     (let appCursorMode = (case getModeCallback h of None \<Rightarrow> None | Some g \<Rightarrow> Some (g 1));
          utf8 = (if length (ke_key ev) = 1 \<and> (of_char (hd (ke_key ev)) :: nat) < 128
                  then Some (toLowerCase (ke_key ev)) else None)
      in case encoder h appCursorMode k mods utf8 of
           None \<Rightarrow> h
         | Some d \<Rightarrow> if length d > 0 then recordKeyDownData (onDataCallback h d) d now else h)"

definition handleKeyDown :: "InputHandler \<Rightarrow> KeyboardEvent \<Rightarrow> number \<Rightarrow> InputHandler" where
  "handleKeyDown h ev now =
     (if ih_isDisposed h then h
      else if isComposing h \<or> ke_isComposing ev \<or> ke_keyCode ev = 229 then h
      else
        (let h1 = (if onKeyCallback h then h\<lparr>keysObserved := keysObserved h @ [ke_key ev]\<rparr> else h)
         in if (case customKeyEventHandler h1 of None \<Rightarrow> False | Some f \<Rightarrow> f ev) then h1
            else if (ke_ctrlKey ev \<or> ke_metaKey ev) \<and> ke_code ev = ''KeyV'' then h1
            else if ke_metaKey ev \<and> ke_code ev = ''KeyC'' then h1
            else if isPrintableCharacter ev
              then recordKeyDownData (onDataCallback h1 (ke_key ev)) (ke_key ev) now
            else
              (case mapKeyCode (ke_code ev) of
                 None \<Rightarrow> h1
               | Some k \<Rightarrow>
                   (let mods = extractModifiers ev
                    in if mods = Mods_NONE \<or> mods = Mods_SHIFT then
                         (case simpleOutput k of
                            Some out \<Rightarrow> recordKeyDownData (onDataCallback h1 out) out now
                          | None \<Rightarrow> encodeKey h1 ev k mods now)
                       else encodeKey h1 ev k mods now))))"

definition handlePaste :: "InputHandler \<Rightarrow> string option \<Rightarrow> number \<Rightarrow> InputHandler" where
  "handlePaste h clipboardText now =
     (if ih_isDisposed h then h
      else
        (case clipboardText of
           None \<Rightarrow> h
         | Some txt \<Rightarrow>
             if txt = [] then h
             else (case shouldIgnorePasteEvent h txt FromPaste now of
                     (ignore, h1) \<Rightarrow>
                       if ignore then h1
                       else recordPasteData (emitPasteData h1 txt) txt FromPaste now)))"

definition newlines_to_cr :: "string \<Rightarrow> string" where
  "newlines_to_cr d = map (\<lambda>c. if c = CHR 0x0A then CHR 0x0D else c) d"

text \<open>
  The tail of \<^verbatim>\<open>handleBeforeInput\<close>, after the \<^verbatim>\<open>switch\<close> has fixed the output.
\<close>

definition beforeInputOutput :: "InputHandler \<Rightarrow> string \<Rightarrow> string option \<Rightarrow> number \<Rightarrow> InputHandler" where
  "beforeInputOutput h d output now =
     (case output of
        None \<Rightarrow> h
      | Some out \<Rightarrow>
          if out = [] then h
          else
            (case shouldIgnoreBeforeInput h out now of
               (ignore, h1) \<Rightarrow>
                 if ignore then h1
                 else if d = [] then onDataCallback h1 out
                 else
                   (case shouldIgnoreBeforeInputFromComposition h1 d now of
                      (ignore2, h2) \<Rightarrow>
                        if ignore2 then h2
                        else recordBeforeInputData (onDataCallback h2 out) d now)))"

definition handleBeforeInput :: "InputHandler \<Rightarrow> InputEvent \<Rightarrow> number \<Rightarrow> InputHandler" where
  "handleBeforeInput h ev now =
     (if ih_isDisposed h then h
      else if isComposing h \<or> ie_isComposing ev then h
      else
        (let inputType = ie_inputType ev;
             d = (case ie_data ev of None \<Rightarrow> [] | Some x \<Rightarrow> x)
         in if inputType = ''insertText'' \<or> inputType = ''insertReplacementText''
              then beforeInputOutput h d (if length d > 0 then Some (newlines_to_cr d) else None) now
            else if inputType = ''insertLineBreak'' \<or> inputType = ''insertParagraph''
              then beforeInputOutput h d (Some [CHR 0x0D]) now
            else if inputType = ''deleteContentBackward''
              then beforeInputOutput h d (Some [CHR 0x7F]) now
            else if inputType = ''deleteContentForward''
              then beforeInputOutput h d (Some (CHR 0x1B # ''[3~'')) now
            else if inputType = ''insertFromPaste'' then
              (if d = [] then h
               else (case shouldIgnorePasteEvent h d FromBeforeInput now of
                       (ignore, h1) \<Rightarrow>
                         if ignore then h1
                         else recordPasteData (emitPasteData h1 d) d FromBeforeInput now))
            else h))"

definition handleCompositionStart :: "InputHandler \<Rightarrow> InputHandler" where
  "handleCompositionStart h = (if ih_isDisposed h then h else h\<lparr>isComposing := True\<rparr>)"

definition handleCompositionUpdate :: "InputHandler \<Rightarrow> InputHandler" where
  "handleCompositionUpdate h = h"

definition handleCompositionEnd :: "InputHandler \<Rightarrow> string option \<Rightarrow> number \<Rightarrow> InputHandler" where
  "handleCompositionEnd h cdata now =
     (if ih_isDisposed h then h
      else
        (let h1 = h\<lparr>isComposing := False\<rparr>
         in case cdata of
              None \<Rightarrow> cleanupCompositionTextNodes h1
            | Some d \<Rightarrow>
                if d = [] then cleanupCompositionTextNodes h1
                else (case shouldIgnoreCompositionEnd h1 d now of
                        (ignore, h2) \<Rightarrow>
                          if ignore then cleanupCompositionTextNodes h2
                          else cleanupCompositionTextNodes
                                 (recordCompositionData (onDataCallback h2 d) d now))))"

text \<open>
  The key table in the words of the specification: the key, by the name of its physical
  code, and the sequence it is documented to send.
\<close>

definition documented_sequence :: "(string \<times> string) list" where
  "documented_sequence =
     [(''Enter'', [CHR 0x0D]), (''Tab'', [CHR 0x09]), (''Backspace'', [CHR 0x7F]),
      (''Escape'', [CHR 0x1B]),
      (''Home'', CHR 0x1B # ''[H''), (''End'', CHR 0x1B # ''[F''),
      (''Insert'', CHR 0x1B # ''[2~''), (''Delete'', CHR 0x1B # ''[3~''),
      (''PageUp'', CHR 0x1B # ''[5~''), (''PageDown'', CHR 0x1B # ''[6~''),
      (''F1'', CHR 0x1B # ''OP''), (''F2'', CHR 0x1B # ''OQ''),
      (''F3'', CHR 0x1B # ''OR''), (''F4'', CHR 0x1B # ''OS''),
      (''F5'', CHR 0x1B # ''[15~''), (''F6'', CHR 0x1B # ''[17~''),
      (''F7'', CHR 0x1B # ''[18~''), (''F8'', CHR 0x1B # ''[19~''),
      (''F9'', CHR 0x1B # ''[20~''), (''F10'', CHR 0x1B # ''[21~''),
      (''F11'', CHR 0x1B # ''[23~''), (''F12'', CHR 0x1B # ''[24~'')]"

section \<open>Terminal (src/lib/terminal.ts): lifecycle, output, viewport\<close>

text \<open>
  \<open>Ghostty\<close> is the external engine as the terminal uses it. \<open>terminal_new\<close> allocates a
  screen grid of a given size, with \<open>None\<close> for the null handle; \<open>key_encoder_new\<close> is
  the result code of allocating a key encoder, 0 for success; \<open>vt_write\<close> feeds output to
  a grid; \<open>vt_resize\<close> resizes it, with \<open>None\<close> when the engine traps on the dimensions
  it is handed. Feeding output is a function of the grid and the bytes: the engine is
  taken to accept what it is fed. Nothing else is assumed about these functions.
\<close>

record Ghostty =
  terminal_new :: "int \<Rightarrow> int \<Rightarrow> GhosttyTerminal option"
  key_encoder_new :: int
  vt_write :: "GhosttyTerminal \<Rightarrow> string \<Rightarrow> GhosttyTerminal"
  vt_resize :: "GhosttyTerminal \<Rightarrow> int \<Rightarrow> int \<Rightarrow> GhosttyTerminal option"

text \<open>A number and an error as a template literal renders them.\<close>

fun digits :: "nat \<Rightarrow> string" where
  "digits n = (if n < 10 then [char_of (48 + n)] else digits (n div 10) @ [char_of (48 + n mod 10)])"

declare digits.simps [simp del]

definition decimal :: "int \<Rightarrow> string" where
  "decimal i = (if i < 0 then CHR ''-'' # digits (nat (- i)) else digits (nat i))"

fun error_text :: "error \<Rightarrow> string" where
  "error_text (Error m) = ''Error: '' @ m"
| "error_text RangeError = ''RangeError''"
| "error_text TypeError = ''TypeError''"
| "error_text RuntimeError = ''RuntimeError''"

text \<open>
  The wrappers of src/lib/ghostty.ts around these calls: the constructor of the grid object
  raises on the null handle and records the dimensions it was given, as does
  \<^verbatim>\<open>resize\<close> once the engine has returned.
\<close>

definition createTerminal :: "Ghostty \<Rightarrow> int \<Rightarrow> int \<Rightarrow> error + GhosttyTerminal" where
  "createTerminal g c r =
     (case terminal_new g c r of
        None \<Rightarrow> Inl (Error ''Failed to allocate terminal (out of memory)'')
      | Some w \<Rightarrow> Inr (w\<lparr>wasm_cols := c, wasm_rows := r\<rparr>))"

definition createKeyEncoder :: "Ghostty \<Rightarrow> error option" where
  "createKeyEncoder g =
     (if key_encoder_new g \<noteq> 0
      then Some (Error (''Failed to create key encoder: '' @ decimal (key_encoder_new g)))
      else None)"

definition wasm_resize :: "Ghostty \<Rightarrow> GhosttyTerminal \<Rightarrow> int \<Rightarrow> int \<Rightarrow> error + GhosttyTerminal" where
  "wasm_resize g w c r =
     (case vt_resize g w c r of
        None \<Rightarrow> Inl RuntimeError
      | Some w' \<Rightarrow> Inr (w'\<lparr>wasm_cols := c, wasm_rows := r\<rparr>))"

text \<open>
  Of the element that \<^verbatim>\<open>open\<close> is given, what decides the call: whether a canvas
  created in its document yields a 2D rendering context. The renderer's constructor
  (src/unnamed/part_000) raises without one.
\<close>

record HTMLElement =
  canvas_2d_context :: bool

definition newCanvasRenderer :: "HTMLElement \<Rightarrow> error option" where
  "newCanvasRenderer parent =
     (if \<not> canvas_2d_context parent then Some (Error ''Failed to get 2D rendering context'')
      else None)"

text \<open>
  The terminal's state, as far as the lifecycle, the output path, the selection calls and
  the viewport read and write it. The fields ending in \<open>Fired\<close> log the calls of the event
  emitters' \<^verbatim>\<open>fire\<close>, in order. \<open>rafHandle\<close> is the last handle that the host's
  \<^verbatim>\<open>requestAnimationFrame\<close> gave out (handles are positive), \<open>scrollbarHideTimeout\<close>
  tells whether the hide timer is pending. The renderer's drawing, the link detector, the
  title tracking and the scrollbar's fade frames do not touch these fields and are left
  out. A raise is the value \<open>Inl\<close>: it carries the error, not what the call had already
  changed in the object, so the calls that follow a raise on the same terminal are not
  described. Teardown also clears the terminal's reference to the engine; the two calls
  that read it, \<^verbatim>\<open>open\<close> and \<^verbatim>\<open>reset\<close>, raise on the lifecycle flags of a disposed
  terminal before they read it, so the field \<open>ghostty\<close> is kept as it is.
\<close>

record Terminal =
  cols :: int
  rows :: int
  smoothScrollDuration :: "number option"
  disableStdin :: bool
  convertEol :: bool
  ghostty :: Ghostty
  wasmTerm :: "GhosttyTerminal option"
  selectionManager :: "SelectionManager option"
  isOpen :: bool
  isDisposed :: bool
  viewportY :: number
  targetViewportY :: number
  scrollAnimationStartTime :: "number option"
  scrollAnimationStartY :: "number option"
  scrollAnimationFrame :: "nat option"
  rafHandle :: nat
  isDraggingScrollbar :: bool
  scrollbarVisible :: bool
  scrollbarOpacity :: number
  scrollbarHideTimeout :: bool
  currentTitle :: string
  dataFired :: "string list"
  scrollFired :: "number list"
  resizeFired :: "(int \<times> int) list"
  bellFired :: nat
  selectionChangeFired :: nat

definition assertOpen :: "Terminal \<Rightarrow> error option" where
  "assertOpen t =
     (if isDisposed t then Some (Error ''Terminal has been disposed'')
      else if \<not> isOpen t
        then Some (Error ''Terminal must be opened before use. Call terminal.open(parent) first.'')
      else None)"

definition new_manager :: "GhosttyTerminal \<Rightarrow> SelectionManager" where
  "new_manager w =
     \<lparr>sm_wasmTerm = w, selectionStart = None, selectionEnd = None, isSelecting = False,
      previousSelection = None, selectionChangedFired = 0, clipboard = []\<rparr>"

text \<open>
  \<^verbatim>\<open>open\<close> creates the components inside a \<^verbatim>\<open>try\<close>, in this order: the grid, the
  renderer on a new canvas, the input handler with its key encoder, the selection manager.
  Whatever one of them raises is caught and raised again as ``Failed to open terminal''
  followed by the text of what was caught.
\<close>

definition failed_to_open :: "error \<Rightarrow> error" where
  "failed_to_open e = Error (''Failed to open terminal: '' @ error_text e)"

definition open_terminal :: "Terminal \<Rightarrow> HTMLElement \<Rightarrow> error + Terminal" where
  "open_terminal t parent =
     (if isOpen t then Inl (Error ''Terminal is already open'')
      else if isDisposed t then Inl (Error ''Terminal has been disposed'')
      else
        (case createTerminal (ghostty t) (cols t) (rows t) of
           Inl e \<Rightarrow> Inl (failed_to_open e)
         | Inr w \<Rightarrow>
             (case newCanvasRenderer parent of
                Some e \<Rightarrow> Inl (failed_to_open e)
              | None \<Rightarrow>
                  (case createKeyEncoder (ghostty t) of
                     Some e \<Rightarrow> Inl (failed_to_open e)
                   | None \<Rightarrow>
                       Inr (t\<lparr>isOpen := True, wasmTerm := Some w,
                              selectionManager := Some (new_manager w)\<rparr>)))))"

definition dispose :: "Terminal \<Rightarrow> Terminal" where
  "dispose t =
     (if isDisposed t then t
      else t\<lparr>isDisposed := True, isOpen := False, scrollAnimationFrame := None,
             selectionManager := None, scrollbarHideTimeout := False, wasmTerm := None\<rparr>)"

text \<open>
  The engine object is shared with the selection manager: a change made through the
  terminal's reference is seen through the manager's.
\<close>

definition update_wasm :: "Terminal \<Rightarrow> GhosttyTerminal \<Rightarrow> Terminal" where
  "update_wasm t w =
     t\<lparr>wasmTerm := Some w,
       selectionManager := map_option (\<lambda>s. s\<lparr>sm_wasmTerm := w\<rparr>) (selectionManager t)\<rparr>"

definition getScrollbackLength :: "Terminal \<Rightarrow> nat" where
  "getScrollbackLength t = (case wasmTerm t of None \<Rightarrow> 0 | Some w \<Rightarrow> wasm_scrollback_length w)"

definition fire_scroll :: "Terminal \<Rightarrow> number \<Rightarrow> Terminal" where
  "fire_scroll t v = t\<lparr>scrollFired := scrollFired t @ [v]\<rparr>"

definition showScrollbar :: "Terminal \<Rightarrow> Terminal" where
  "showScrollbar t =
     (let t1 = t\<lparr>scrollbarHideTimeout := False\<rparr>;
          t2 = (if \<not> scrollbarVisible t1 then t1\<lparr>scrollbarVisible := True, scrollbarOpacity := 0\<rparr>
                else t1\<lparr>scrollbarOpacity := 1\<rparr>)
      in if \<not> isDraggingScrollbar t2 then t2\<lparr>scrollbarHideTimeout := True\<rparr> else t2)"

definition showScrollbar_if_scrollback :: "Terminal \<Rightarrow> Terminal" where
  "showScrollbar_if_scrollback t = (if getScrollbackLength t > 0 then showScrollbar t else t)"

definition scrollLines :: "Terminal \<Rightarrow> number \<Rightarrow> error + Terminal" where
  "scrollLines t amount =
     (case wasmTerm t of
        None \<Rightarrow> Inl (Error ''Terminal not open'')
      | Some w \<Rightarrow>
          (let maxScroll = of_nat (getScrollbackLength t);
               newViewportY = max 0 (min maxScroll (viewportY t - amount))
           in if newViewportY \<noteq> viewportY t
              then Inr (showScrollbar_if_scrollback
                          (fire_scroll (t\<lparr>viewportY := newViewportY\<rparr>) newViewportY))
              else Inr t))"

definition scrollPages :: "Terminal \<Rightarrow> number \<Rightarrow> error + Terminal" where
  "scrollPages t amount = scrollLines t (amount * of_int (rows t))"

definition scrollToTop :: "Terminal \<Rightarrow> Terminal" where
  "scrollToTop t =
     (let scrollbackLength = getScrollbackLength t
      in if scrollbackLength > 0 \<and> viewportY t \<noteq> of_nat scrollbackLength
         then showScrollbar
                (fire_scroll (t\<lparr>viewportY := of_nat scrollbackLength\<rparr>) (of_nat scrollbackLength))
         else t)"

definition scrollToBottom :: "Terminal \<Rightarrow> Terminal" where
  "scrollToBottom t =
     (if viewportY t \<noteq> 0
      then showScrollbar_if_scrollback (fire_scroll (t\<lparr>viewportY := 0\<rparr>) 0)
      else t)"

definition scrollToLine :: "Terminal \<Rightarrow> number \<Rightarrow> Terminal" where
  "scrollToLine t line =
     (let newViewportY = max 0 (min (of_nat (getScrollbackLength t)) line)
      in if newViewportY \<noteq> viewportY t
         then showScrollbar_if_scrollback
                (fire_scroll (t\<lparr>viewportY := newViewportY\<rparr>) newViewportY)
         else t)"

text \<open>
  One run of the animation callback. With a duration of zero the source divides by zero
  and the offset stops being a finite number: that outcome is \<open>None\<close>.
\<close>

definition duration_of :: "Terminal \<Rightarrow> number" where
  "duration_of t = (case smoothScrollDuration t of None \<Rightarrow> 100 | Some d \<Rightarrow> d)"

definition floor_number :: "number \<Rightarrow> number" where
  "floor_number x = of_int \<lfloor>x\<rfloor>"

definition requestAnimationFrame :: "Terminal \<Rightarrow> Terminal" where
  "requestAnimationFrame t =
     t\<lparr>rafHandle := Suc (rafHandle t), scrollAnimationFrame := Some (Suc (rafHandle t))\<rparr>"

definition animateScroll :: "Terminal \<Rightarrow> Terminal option" where
  "animateScroll t =
     (if wasmTerm t = None \<or> scrollAnimationStartTime t = None then Some t
      else
        (let duration = duration_of t;
             distance = targetViewportY t - viewportY t
         in if \<bar>distance\<bar> < 1 / 100 then
              Some ((showScrollbar_if_scrollback
                       (fire_scroll (t\<lparr>viewportY := targetViewportY t\<rparr>)
                          (floor_number (targetViewportY t))))
                    \<lparr>scrollAnimationFrame := None, scrollAnimationStartTime := None,
                     scrollAnimationStartY := None\<rparr>)
            else
              (let framesForDuration = (duration / 1000) * 60
               in if framesForDuration = 0 then None
                  else
                    (let moveRatio = 1 - (1 / framesForDuration) ^ 2;
                         y = viewportY t + distance * moveRatio
                     in Some (requestAnimationFrame
                                (showScrollbar_if_scrollback
                                   (fire_scroll (t\<lparr>viewportY := y\<rparr>) (floor_number y))))))))"

definition smoothScrollTo :: "Terminal \<Rightarrow> number \<Rightarrow> number \<Rightarrow> Terminal option" where
  "smoothScrollTo t targetY now =
     (if wasmTerm t = None then Some t
      else
        (let maxScroll = of_nat (getScrollbackLength t);
             newTarget = max 0 (min maxScroll targetY)
         in if duration_of t = 0 then
              Some (showScrollbar_if_scrollback
                      (fire_scroll (t\<lparr>viewportY := newTarget, targetViewportY := newTarget\<rparr>)
                         (floor_number newTarget)))
            else
              (let t1 = t\<lparr>targetViewportY := newTarget\<rparr>
               in if (case scrollAnimationFrame t1 of None \<Rightarrow> False | Some n \<Rightarrow> n \<noteq> 0) then Some t1
                  else animateScroll
                         (t1\<lparr>scrollAnimationStartTime := Some now,
                             scrollAnimationStartY := Some (viewportY t1)\<rparr>))))"

text \<open>
  The host calls the animation callback once per frame for as long as one is scheduled.
  \<open>run_frames n\<close> lets at most \<open>n\<close> frames pass.
\<close>

fun run_frames :: "nat \<Rightarrow> Terminal \<Rightarrow> Terminal option" where
  "run_frames 0 t = Some t"
| "run_frames (Suc n) t =
     (case scrollAnimationFrame t of
        None \<Rightarrow> Some t
      | Some h \<Rightarrow> (case animateScroll t of None \<Rightarrow> None | Some t' \<Rightarrow> run_frames n t'))"

text \<open>Output.\<close>

definition processTerminalResponses :: "Terminal \<Rightarrow> Terminal" where
  "processTerminalResponses t =
     (case wasmTerm t of
        None \<Rightarrow> t
      | Some w \<Rightarrow>
          (update_wasm t (w\<lparr>wasm_responses := []\<rparr>))\<lparr>dataFired := dataFired t @ wasm_responses w\<rparr>)"

definition writeInternal :: "Terminal \<Rightarrow> string \<Rightarrow> error + Terminal" where
  "writeInternal t d =
     (case wasmTerm t of
        None \<Rightarrow> Inl TypeError
      | Some w \<Rightarrow>
          (let t1 = processTerminalResponses (update_wasm t (vt_write (ghostty t) w d));
               t2 = (if CHR 0x07 \<in> set d then t1\<lparr>bellFired := Suc (bellFired t1)\<rparr> else t1)
           in Inr (if viewportY t2 \<noteq> 0 then scrollToBottom t2 else t2)))"

definition lf_to_crlf :: "string \<Rightarrow> string" where
  "lf_to_crlf d = concat (map (\<lambda>c. if c = CHR 0x0A then [CHR 0x0D, CHR 0x0A] else [c]) d)"

definition terminal_write :: "Terminal \<Rightarrow> string \<Rightarrow> error + Terminal" where
  "terminal_write t d =
     (case assertOpen t of
        Some e \<Rightarrow> Inl e
      | None \<Rightarrow> writeInternal t (if convertEol t then lf_to_crlf d else d))"

definition paste :: "Terminal \<Rightarrow> string \<Rightarrow> error + Terminal" where
  "paste t d =
     (case assertOpen t of
        Some e \<Rightarrow> Inl e
      | None \<Rightarrow>
          if disableStdin t then Inr t
          else (case wasmTerm t of
                  None \<Rightarrow> Inl TypeError
                | Some w \<Rightarrow>
                    if wasm_bracketed_paste w
                    then Inr (t\<lparr>dataFired := dataFired t @ [[CHR 0x1B] @ ''[200~'' @ d @ [CHR 0x1B] @ ''[201~'']\<rparr>)
                    else Inr (t\<lparr>dataFired := dataFired t @ [d]\<rparr>)))"

definition terminal_input :: "Terminal \<Rightarrow> string \<Rightarrow> bool \<Rightarrow> error + Terminal" where
  "terminal_input t d wasUserInput =
     (case assertOpen t of
        Some e \<Rightarrow> Inl e
      | None \<Rightarrow>
          if disableStdin t then Inr t
          else if wasUserInput then Inr (t\<lparr>dataFired := dataFired t @ [d]\<rparr>)
          else terminal_write t d)"

text \<open>
  \<^verbatim>\<open>resize\<close> hands the new dimensions to the engine as they come. The renderer and
  canvas assignments that follow change none of the fields kept here.
\<close>

definition resize :: "Terminal \<Rightarrow> int \<Rightarrow> int \<Rightarrow> error + Terminal" where
  "resize t c r =
     (case assertOpen t of
        Some e \<Rightarrow> Inl e
      | None \<Rightarrow>
          if c = cols t \<and> r = rows t then Inr t
          else (case wasmTerm t of
                  None \<Rightarrow> Inl TypeError
                | Some w \<Rightarrow>
                    (case wasm_resize (ghostty t) w c r of
                       Inl e \<Rightarrow> Inl e
                     | Inr w' \<Rightarrow>
                         Inr ((update_wasm (t\<lparr>cols := c, rows := r\<rparr>) w')
                                \<lparr>resizeFired := resizeFired t @ [(c, r)]\<rparr>))))"

definition clear :: "Terminal \<Rightarrow> error + Terminal" where
  "clear t =
     (case assertOpen t of
        Some e \<Rightarrow> Inl e
      | None \<Rightarrow>
          (case wasmTerm t of
             None \<Rightarrow> Inl TypeError
           | Some w \<Rightarrow> Inr (update_wasm t (vt_write (ghostty t) w ([CHR 0x1B] @ ''[2J'' @ [CHR 0x1B] @ ''[H'')))))"

definition reset :: "Terminal \<Rightarrow> error + Terminal" where
  "reset t =
     (case assertOpen t of
        Some e \<Rightarrow> Inl e
      | None \<Rightarrow>
          (case createTerminal (ghostty t) (cols t) (rows t) of
             Inl e \<Rightarrow> Inl e
           | Inr w \<Rightarrow> Inr (t\<lparr>wasmTerm := Some w, currentTitle := []\<rparr>)))"

text \<open>
  The selection calls go to the manager if there is one; what the manager fires is
  forwarded to the terminal's own selection-change emitter.
\<close>

definition with_manager :: "Terminal \<Rightarrow> (SelectionManager \<Rightarrow> SelectionManager) \<Rightarrow> Terminal" where
  "with_manager t f =
     (case selectionManager t of
        None \<Rightarrow> t
      | Some s \<Rightarrow>
          t\<lparr>selectionManager := Some (f s),
            selectionChangeFired :=
              selectionChangeFired t + (selectionChangedFired (f s) - selectionChangedFired s)\<rparr>)"

definition terminal_hasSelection :: "Terminal \<Rightarrow> bool" where
  "terminal_hasSelection t = (case selectionManager t of None \<Rightarrow> False | Some s \<Rightarrow> hasSelection s)"

definition terminal_clearSelection :: "Terminal \<Rightarrow> Terminal" where
  "terminal_clearSelection t = with_manager t clearSelection"

definition terminal_selectAll :: "Terminal \<Rightarrow> Terminal" where
  "terminal_selectAll t = with_manager t selectAll"

definition terminal_selectLines :: "Terminal \<Rightarrow> int \<Rightarrow> int \<Rightarrow> Terminal" where
  "terminal_selectLines t a b = with_manager t (\<lambda>s. selectLines s a b)"

definition terminal_select :: "Terminal \<Rightarrow> int \<Rightarrow> int \<Rightarrow> int \<Rightarrow> Terminal option" where
  "terminal_select t c r len =
     (case selectionManager t of
        None \<Rightarrow> Some t
      | Some s \<Rightarrow>
          (case select s c r len of
             None \<Rightarrow> None
           | Some s' \<Rightarrow> Some (with_manager t (\<lambda>x. s'))))"

text \<open>The immediate-mode scroll calls, and runs of them that stop at the first raise.\<close>

datatype scroll_call =
    ScrollLines number
  | ScrollPages number
  | ScrollToTop
  | ScrollToBottom
  | ScrollToLine number

fun do_scroll :: "Terminal \<Rightarrow> scroll_call \<Rightarrow> error + Terminal" where
  "do_scroll t (ScrollLines a) = scrollLines t a"
| "do_scroll t (ScrollPages a) = scrollPages t a"
| "do_scroll t ScrollToTop = Inr (scrollToTop t)"
| "do_scroll t ScrollToBottom = Inr (scrollToBottom t)"
| "do_scroll t (ScrollToLine n) = Inr (scrollToLine t n)"

fun do_scrolls :: "Terminal \<Rightarrow> scroll_call list \<Rightarrow> error + Terminal" where
  "do_scrolls t [] = Inr t"
| "do_scrolls t (c # cs) = (case do_scroll t c of Inl e \<Rightarrow> Inl e | Inr t' \<Rightarrow> do_scrolls t' cs)"

text \<open>
  The mutating operations of the public surface, and what a call of one comes to: it
  returns with a new state, it raises, or (only \<^verbatim>\<open>select\<close> on a grid without columns) it
  does not return.
\<close>

datatype term_op =
    Open HTMLElement
  | Dispose
  | Write string
  | Paste string
  | Input string bool
  | Resize int int
  | Clear
  | Reset
  | Scroll scroll_call
  | ClearSelection
  | SelectAll
  | Select int int int
  | SelectLines int int

datatype outcome = Returned Terminal | Threw error | Hangs

definition of_sum :: "error + Terminal \<Rightarrow> outcome" where
  "of_sum r = (case r of Inl e \<Rightarrow> Threw e | Inr t \<Rightarrow> Returned t)"

fun invoke :: "Terminal \<Rightarrow> term_op \<Rightarrow> outcome" where
  "invoke t (Open parent) = of_sum (open_terminal t parent)"
| "invoke t Dispose = Returned (dispose t)"
| "invoke t (Write d) = of_sum (terminal_write t d)"
| "invoke t (Paste d) = of_sum (paste t d)"
| "invoke t (Input d u) = of_sum (terminal_input t d u)"
| "invoke t (Resize c r) = of_sum (resize t c r)"
| "invoke t Clear = of_sum (clear t)"
| "invoke t Reset = of_sum (reset t)"
| "invoke t (Scroll c) = of_sum (do_scroll t c)"
| "invoke t ClearSelection = Returned (terminal_clearSelection t)"
| "invoke t SelectAll = Returned (terminal_selectAll t)"
| "invoke t (Select c r len) = (case terminal_select t c r len of None \<Rightarrow> Hangs | Some t' \<Rightarrow> Returned t')"
| "invoke t (SelectLines a b) = Returned (terminal_selectLines t a b)"

text \<open>A terminal as its constructor leaves it, over a given engine and options.\<close>

definition new_terminal :: "Ghostty \<Rightarrow> int \<Rightarrow> int \<Rightarrow> number option \<Rightarrow> Terminal" where
  "new_terminal g c r dur =
     \<lparr>cols = c, rows = r, smoothScrollDuration = dur, disableStdin = False, convertEol = False,
      ghostty = g, wasmTerm = None, selectionManager = None, isOpen = False, isDisposed = False,
      viewportY = 0, targetViewportY = 0, scrollAnimationStartTime = None,
      scrollAnimationStartY = None, scrollAnimationFrame = None, rafHandle = 0,
      isDraggingScrollbar = False, scrollbarVisible = False, scrollbarOpacity = 0,
      scrollbarHideTimeout = False, currentTitle = [], dataFired = [], scrollFired = [],
      resizeFired = [], bellFired = 0, selectionChangeFired = 0\<rparr>"

text \<open>
  The targets of the immediate-mode calls in the words of the specification: each call
  computes a target clamped to \<open>[0, scrollbackLength]\<close> from the current offset.
\<close>

definition clamp_offset :: "nat \<Rightarrow> number \<Rightarrow> number" where
  "clamp_offset sbl x = max 0 (min (of_nat sbl) x)"

fun spec_target :: "nat \<Rightarrow> int \<Rightarrow> number \<Rightarrow> scroll_call \<Rightarrow> number" where
  "spec_target sbl rws v (ScrollLines a) = clamp_offset sbl (v - a)"
| "spec_target sbl rws v (ScrollPages a) = clamp_offset sbl (v - a * of_int rws)"
| "spec_target sbl rws v ScrollToTop = of_nat sbl"
| "spec_target sbl rws v ScrollToBottom = 0"
| "spec_target sbl rws v (ScrollToLine n) = clamp_offset sbl n"

fun spec_offsets :: "nat \<Rightarrow> int \<Rightarrow> number \<Rightarrow> scroll_call list \<Rightarrow> number list" where
  "spec_offsets sbl rws v [] = []"
| "spec_offsets sbl rws v (c # cs) =
     spec_target sbl rws v c # spec_offsets sbl rws (spec_target sbl rws v c) cs"

fun each_differs :: "number \<Rightarrow> number list \<Rightarrow> bool" where
  "each_differs v [] = True"
| "each_differs v (x # xs) = (x \<noteq> v \<and> each_differs x xs)"

definition in_range :: "Terminal \<Rightarrow> bool" where
  "in_range t = (0 \<le> viewportY t \<and> viewportY t \<le> of_nat (getScrollbackLength t))"

text \<open>
  Concrete states for evaluating the definitions: a grid with \<open>n\<close> lines of scrollback
  and no rows, an engine that ignores its input, and an open terminal over them with a
  given smooth-scroll duration.
\<close>

definition blank_grid :: "nat \<Rightarrow> GhosttyTerminal" where
  "blank_grid n =
     \<lparr>wasm_cols = 80, wasm_rows = 24, wasm_get_line = (\<lambda>y. None),
      wasm_scrollback_length = n, wasm_responses = [], wasm_bracketed_paste = False\<rparr>"

definition idle_engine :: Ghostty where
  "idle_engine =
     \<lparr>terminal_new = (\<lambda>c r. Some (blank_grid 0)),
      key_encoder_new = 0,
      vt_write = (\<lambda>w d. w),
      vt_resize = (\<lambda>w c r. Some w)\<rparr>"

definition browser_element :: HTMLElement where
  "browser_element = \<lparr>canvas_2d_context = True\<rparr>"

text \<open>The same engine once it can no longer allocate a grid.\<close>

definition exhausted_engine :: Ghostty where
  "exhausted_engine = idle_engine\<lparr>terminal_new := (\<lambda>c r. None)\<rparr>"

definition opened_with :: "number option \<Rightarrow> nat \<Rightarrow> Terminal" where
  "opened_with dur n =
     (new_terminal idle_engine 80 24 dur)
       \<lparr>isOpen := True, wasmTerm := Some (blank_grid n),
        selectionManager := Some (new_manager (blank_grid n))\<rparr>"

definition integral :: "number \<Rightarrow> bool" where
  "integral x = (floor_number x = x)"

fun integral_call :: "scroll_call \<Rightarrow> bool" where
  "integral_call (ScrollLines a) = integral a"
| "integral_call (ScrollPages a) = integral a"
| "integral_call (ScrollToLine n) = integral n"
| "integral_call ScrollToTop = True"
| "integral_call ScrollToBottom = True"

text \<open>
  A terminal is usable between \<^verbatim>\<open>open\<close> and \<^verbatim>\<open>dispose\<close>. The engine handle and the
  selection manager exist exactly then: \<open>consistent\<close> holds of a new terminal and every
  operation that returns keeps it.
\<close>

definition usable :: "Terminal \<Rightarrow> bool" where
  "usable t = (isOpen t \<and> \<not> isDisposed t)"

definition consistent :: "Terminal \<Rightarrow> bool" where
  "consistent t =
     (usable t = (wasmTerm t \<noteq> None) \<and> usable t = (selectionManager t \<noteq> None))"

text \<open>
  The operations that check the lifecycle before they act, and the ones that act on
  whatever components exist.
\<close>

fun guarded :: "term_op \<Rightarrow> bool" where
  "guarded (Write d) = True"
| "guarded (Paste d) = True"
| "guarded (Input d u) = True"
| "guarded (Resize c r) = True"
| "guarded Clear = True"
| "guarded Reset = True"
| "guarded (Scroll (ScrollLines a)) = True"
| "guarded (Scroll (ScrollPages a)) = True"
| "guarded _ = False"

fun unguarded :: "term_op \<Rightarrow> bool" where
  "unguarded (Scroll ScrollToTop) = True"
| "unguarded (Scroll ScrollToBottom) = True"
| "unguarded (Scroll (ScrollToLine n)) = True"
| "unguarded ClearSelection = True"
| "unguarded SelectAll = True"
| "unguarded (Select c r len) = True"
| "unguarded (SelectLines a b) = True"
| "unguarded _ = False"

definition throws :: "outcome \<Rightarrow> bool" where
  "throws r = (case r of Threw e \<Rightarrow> True | _ \<Rightarrow> False)"

text \<open>
  The unguarded calls that can still move the offset without an engine: they clamp to a
  scrollback length of 0.
\<close>

fun snaps_to_zero :: "term_op \<Rightarrow> bool" where
  "snaps_to_zero (Scroll ScrollToBottom) = True"
| "snaps_to_zero (Scroll (ScrollToLine n)) = True"
| "snaps_to_zero _ = False"

text \<open>The calls on a usable terminal that reach an engine call which can raise.\<close>

fun engine_bound :: "term_op \<Rightarrow> bool" where
  "engine_bound (Open parent) = True"
| "engine_bound (Resize c r) = True"
| "engine_bound Reset = True"
| "engine_bound _ = False"


text \<open>
  The states from which the animation callback moves the offset away from its target: a
  duration of 10 ms, the target at 10, the offset below 0, a frame scheduled.
\<close>

definition diverging :: "Terminal \<Rightarrow> bool" where
  "diverging t = (wasmTerm t \<noteq> None \<and> scrollAnimationStartTime t \<noteq> None \<and>
     duration_of t = 10 \<and> targetViewportY t = 10 \<and> viewportY t < 0 \<and> scrollAnimationFrame t \<noteq> None)"

text \<open>
  Concrete inputs for the input handler: a handler as its constructor leaves it (without
  the optional callbacks, over an encoder that always raises), a keyboard event for an
  unmodified or shifted key, and \<^verbatim>\<open>beforeinput\<close> events of a given type.
\<close>

definition new_handler :: InputHandler where
  "new_handler =
     \<lparr>encoder = (\<lambda>m k mods utf8. None), onKeyCallback = False, customKeyEventHandler = None,
      getModeCallback = None, onCopyCallback = None, isComposing = False, ih_isDisposed = False,
      lastKeyDownData = None, lastKeyDownTime = 0, lastPasteData = None, lastPasteTime = 0,
      lastPasteSource = None, lastCompositionData = None, lastCompositionTime = 0,
      lastBeforeInputData = None, lastBeforeInputTime = 0, emitted = [], keysObserved = [],
      childNodes = []\<rparr>"

definition key_event :: "string \<Rightarrow> string \<Rightarrow> bool \<Rightarrow> KeyboardEvent" where
  "key_event c k shift =
     \<lparr>ke_code = c, ke_key = k, ke_shiftKey = shift, ke_ctrlKey = False, ke_altKey = False,
      ke_metaKey = False, ke_isComposing = False, ke_keyCode = 0\<rparr>"

definition input_event :: "string \<Rightarrow> string \<Rightarrow> InputEvent" where
  "input_event ty d = \<lparr>ie_inputType = ty, ie_data = Some d, ie_isComposing = False\<rparr>"

text \<open>
  No de-duplication record of the handler holds the text \<open>x\<close> (or what a
  \<^verbatim>\<open>beforeinput\<close> would send for it).
\<close>

definition quiet :: "InputHandler \<Rightarrow> string \<Rightarrow> bool" where
  "quiet h x =
     (lastKeyDownData h \<noteq> Some x \<and> lastKeyDownData h \<noteq> Some (newlines_to_cr x) \<and>
      lastCompositionData h \<noteq> Some x \<and> lastBeforeInputData h \<noteq> Some x \<and>
      lastPasteData h \<noteq> Some x)"

definition bracketed :: "InputHandler \<Rightarrow> string \<Rightarrow> string" where
  "bracketed h x =
     (if (case getModeCallback h of None \<Rightarrow> False | Some g \<Rightarrow> g 2004)
      then [CHR 0x1B] @ ''[200~'' @ x @ [CHR 0x1B] @ ''[201~'' else x)"

text \<open>
  A grid of \<open>n\<close> rows of four cells each: the letter ``a'', a wide character, the
  zero-width cell that follows it, and an empty cell.
\<close>

definition demo_cells :: "GhosttyCell list" where
  "demo_cells =
     [\<lparr>codepoint = 97, width = 1\<rparr>, \<lparr>codepoint = 20013, width = 2\<rparr>,
      \<lparr>codepoint = 0, width = 0\<rparr>, \<lparr>codepoint = 0, width = 1\<rparr>]"

definition demo_grid :: "int \<Rightarrow> GhosttyTerminal" where
  "demo_grid n =
     \<lparr>wasm_cols = 4, wasm_rows = n, wasm_get_line = (\<lambda>y. Some demo_cells),
      wasm_scrollback_length = 0, wasm_responses = [], wasm_bracketed_paste = False\<rparr>"

text \<open>
  What one row of the range contributes to the extracted text: nothing when the grid does
  not provide the row, else the row's text, followed by a newline on every row before the
  last row of the range.
\<close>

definition row_piece :: "GhosttyTerminal \<Rightarrow> SelectionCoordinates \<Rightarrow> int \<Rightarrow> jstext" where
  "row_piece w cs r =
     (case getLine w r of
        None \<Rightarrow> []
      | Some line \<Rightarrow> spec_row w cs r @ (if r < endRow cs then [10] else []))"

section \<open>Selection: what fires the selection-change notification\<close>

lemma clearSelection_no_selection: "\<not> hasSelection (clearSelection s)"
  by (simp add: clearSelection_def hasSelection_def)

lemma clearSelection_fired: "selectionChangedFired (clearSelection s) = selectionChangedFired s"
  by (simp add: clearSelection_def)

lemma selectAll_fired: "selectionChangedFired (selectAll s) = Suc (selectionChangedFired s)"
  by (simp add: selectAll_def fire_selectionChanged_def)

lemma selectLines_fired: "selectionChangedFired (selectLines s a b) = Suc (selectionChangedFired s)"
  by (simp add: selectLines_def fire_selectionChanged_def Let_def)

lemma select_fired:
  "select s c r len = Some s' \<Longrightarrow> selectionChangedFired s' = Suc (selectionChangedFired s)"
  by (auto simp: select_def Let_def fire_selectionChanged_def split: if_splits prod.splits)

lemma copy_and_fire_fired:
  "selectionChangedFired (copy_and_fire s) =
     selectionChangedFired s + (if nonempty_text s then 1 else 0)"
  by (simp add: copy_and_fire_def nonempty_text_def fire_selectionChanged_def split: sum.splits)

lemma mouseDown_fired: "selectionChangedFired (mouseDown s cell button) = selectionChangedFired s"
  by (simp add: mouseDown_def clearSelection_fired)

lemma mouseMove_fired: "selectionChangedFired (mouseMove s cell) = selectionChangedFired s"
  by (simp add: mouseMove_def)

lemma mouseUp_fired:
  "selectionChangedFired (mouseUp s) =
     selectionChangedFired s + (if notifying s MouseUp then 1 else 0)"
  by (simp add: mouseUp_def copy_and_fire_fired)

lemma dblClick_fired:
  "selectionChangedFired (dblClick s cell) =
     selectionChangedFired s + (if notifying s (DblClick cell) then 1 else 0)"
  by (simp add: dblClick_def copy_and_fire_fired split: sum.splits option.splits prod.splits)

lemma sm_step_fired:
  "case sm_step s e of
     None \<Rightarrow> True
   | Some s' \<Rightarrow>
       selectionChangedFired s' = selectionChangedFired s + (if notifying s e then 1 else 0)"
proof (cases e)
  case (CallSelect c r len)
  then show ?thesis by (auto split: option.splits dest: select_fired)
qed (simp_all add: mouseDown_fired mouseMove_fired mouseUp_fired dblClick_fired
       selectAll_fired selectLines_fired clearSelection_fired clearPreviousSelection_def)

lemma terminal_clearSelection_silent:
  "\<not> terminal_hasSelection (terminal_clearSelection t) \<and>
   selectionChangeFired (terminal_clearSelection t) = selectionChangeFired t"
  by (simp add: terminal_hasSelection_def terminal_clearSelection_def with_manager_def
        clearSelection_no_selection clearSelection_fired split: option.splits)

text \<open>
  Claim C10. Clearing the selection, on the selection manager or through the terminal,
  leaves no selection and fires no selection-change notification, whatever the selection
  was. Over everything that can reach the manager, the notification is fired exactly once
  by a mouse release ending a drag over non-empty text, by a double click on a word with
  non-empty text and by \<^verbatim>\<open>selectAll\<close>, \<^verbatim>\<open>select\<close>, \<^verbatim>\<open>selectLines\<close>, and not at all
  by anything else.
\<close>

theorem clearing_never_notifies:
  "\<not> hasSelection (clearSelection s) \<and>
   selectionChangedFired (clearSelection s) = selectionChangedFired s \<and>
   \<not> terminal_hasSelection (terminal_clearSelection t) \<and>
   selectionChangeFired (terminal_clearSelection t) = selectionChangeFired t \<and>
   (case sm_step s e of
      None \<Rightarrow> True
    | Some s' \<Rightarrow>
        selectionChangedFired s' = selectionChangedFired s + (if notifying s e then 1 else 0))"
  using clearSelection_no_selection [of s] clearSelection_fired [of s]
    terminal_clearSelection_silent [of t] sm_step_fired [of s e]
  by simp

section \<open>Viewport: clamping, notifications, animation\<close>

lemma showScrollbar_fields [simp]:
  "viewportY (showScrollbar t) = viewportY t"
  "targetViewportY (showScrollbar t) = targetViewportY t"
  "scrollFired (showScrollbar t) = scrollFired t"
  "wasmTerm (showScrollbar t) = wasmTerm t"
  "rows (showScrollbar t) = rows t"
  "smoothScrollDuration (showScrollbar t) = smoothScrollDuration t"
  "scrollAnimationFrame (showScrollbar t) = scrollAnimationFrame t"
  "scrollAnimationStartTime (showScrollbar t) = scrollAnimationStartTime t"
  "rafHandle (showScrollbar t) = rafHandle t"
  "isOpen (showScrollbar t) = isOpen t"
  "isDisposed (showScrollbar t) = isDisposed t"
  by (simp_all add: showScrollbar_def Let_def)

lemma showScrollbar_if_fields [simp]:
  "viewportY (showScrollbar_if_scrollback t) = viewportY t"
  "targetViewportY (showScrollbar_if_scrollback t) = targetViewportY t"
  "scrollFired (showScrollbar_if_scrollback t) = scrollFired t"
  "wasmTerm (showScrollbar_if_scrollback t) = wasmTerm t"
  "rows (showScrollbar_if_scrollback t) = rows t"
  "smoothScrollDuration (showScrollbar_if_scrollback t) = smoothScrollDuration t"
  "scrollAnimationFrame (showScrollbar_if_scrollback t) = scrollAnimationFrame t"
  "scrollAnimationStartTime (showScrollbar_if_scrollback t) = scrollAnimationStartTime t"
  "rafHandle (showScrollbar_if_scrollback t) = rafHandle t"
  "isOpen (showScrollbar_if_scrollback t) = isOpen t"
  "isDisposed (showScrollbar_if_scrollback t) = isDisposed t"
  by (simp_all add: showScrollbar_if_scrollback_def)

lemma getScrollbackLength_cong:
  "wasmTerm t' = wasmTerm t \<Longrightarrow> getScrollbackLength t' = getScrollbackLength t"
  by (simp add: getScrollbackLength_def)

lemma getScrollbackLength_show [simp]:
  "getScrollbackLength (showScrollbar t) = getScrollbackLength t"
  "getScrollbackLength (showScrollbar_if_scrollback t) = getScrollbackLength t"
  by (simp_all add: getScrollbackLength_def)

lemma clamp_offset_range: "0 \<le> clamp_offset n x \<and> clamp_offset n x \<le> of_nat n"
  by (simp add: clamp_offset_def)

lemma scrollLines_in_range: "scrollLines t a = Inr t' \<Longrightarrow> in_range t'"
  by (auto simp: scrollLines_def in_range_def Let_def getScrollbackLength_def fire_scroll_def
      split: option.splits if_splits)

lemma scrollToLine_in_range: "in_range (scrollToLine t n)"
  by (auto simp: scrollToLine_def in_range_def Let_def getScrollbackLength_def fire_scroll_def
      split: option.splits if_splits)

lemma scrollToBottom_in_range: "viewportY (scrollToBottom t) = 0"
  by (simp add: scrollToBottom_def fire_scroll_def)

lemma scrollToTop_in_range: "in_range t \<Longrightarrow> in_range (scrollToTop t)"
  by (auto simp: scrollToTop_def in_range_def Let_def getScrollbackLength_def fire_scroll_def
      split: option.splits if_splits)


lemma opened_with_simps [simp]:
  "wasmTerm (opened_with dur n) = Some (blank_grid n)"
  "viewportY (opened_with dur n) = 0"
  "targetViewportY (opened_with dur n) = 0"
  "scrollFired (opened_with dur n) = []"
  "smoothScrollDuration (opened_with dur n) = dur"
  "scrollAnimationFrame (opened_with dur n) = None"
  "rows (opened_with dur n) = 24"
  "isOpen (opened_with dur n)"
  "\<not> isDisposed (opened_with dur n)"
  "rafHandle (opened_with dur n) = 0"
  by (simp_all add: opened_with_def new_terminal_def)

lemma blank_grid_sbl [simp]: "wasm_scrollback_length (blank_grid n) = n"
  by (simp add: blank_grid_def)

lemma smooth_eval:
  "smoothScrollTo (opened_with (Some 10) 10) 10 now =
     Some (requestAnimationFrame (showScrollbar_if_scrollback (fire_scroll
        ((opened_with (Some 10) 10)\<lparr>targetViewportY := 10, scrollAnimationStartTime := Some now,
            scrollAnimationStartY := Some 0, viewportY := - 160 / 9\<rparr>) (floor_number (- 160 / 9)))))"
  by (simp add: smoothScrollTo_def animateScroll_def Let_def duration_of_def getScrollbackLength_def
        power2_eq_square)

lemma floor_ex: "floor_number (- (160 / 9)) = - 18"
proof -
  have "\<lfloor>- (160 / 9) :: rat\<rfloor> = - 18" by (simp add: floor_unique)
  then show ?thesis by (simp add: floor_number_def)
qed


lemma diverging_step:
  assumes "diverging t"
  shows "\<exists>t'. animateScroll t = Some t' \<and> diverging t' \<and> viewportY t' < viewportY t"
proof -
  from assms have v: "viewportY t < 0" and tg: "targetViewportY t = 10" and d: "duration_of t = 10"
    and w: "wasmTerm t \<noteq> None" and st: "scrollAnimationStartTime t \<noteq> None"
    by (simp_all add: diverging_def)
  have far: "\<not> \<bar>10 - viewportY t\<bar> * 100 < 1" using v by simp
  let ?y = "viewportY t + (10 - viewportY t) * (1 - (1 / ((10 / 1000) * 60)) ^ 2)"
  have y: "?y < viewportY t" using v by (simp add: power2_eq_square field_simps)
  have eq: "animateScroll t = Some (requestAnimationFrame (showScrollbar_if_scrollback
       (fire_scroll (t\<lparr>viewportY := ?y\<rparr>) (floor_number ?y))))"
    by (simp add: animateScroll_def Let_def tg d w st far)
  show ?thesis
    unfolding eq using y v w st tg d
    by (simp add: diverging_def requestAnimationFrame_def fire_scroll_def duration_of_def)
qed

lemma diverging_forever:
  "diverging t \<Longrightarrow> \<exists>t'. run_frames n t = Some t' \<and> diverging t'"
proof (induction n arbitrary: t)
  case 0
  then show ?case by simp
next
  case (Suc n)
  from diverging_step [OF Suc.prems] obtain t1 where
    a: "animateScroll t = Some t1" and d1: "diverging t1" by blast
  from Suc.prems obtain h where h: "scrollAnimationFrame t = Some h"
    by (auto simp: diverging_def)
  from Suc.IH [OF d1] show ?case by (simp add: h a)
qed


lemma do_scroll_step:
  assumes w: "wasmTerm t = Some w"
    and p: "0 < wasm_scrollback_length w \<or> c \<noteq> ScrollToTop"
    and d: "spec_target (wasm_scrollback_length w) (rows t) (viewportY t) c \<noteq> viewportY t"
  shows "\<exists>t'. do_scroll t c = Inr t' \<and>
           viewportY t' = spec_target (wasm_scrollback_length w) (rows t) (viewportY t) c \<and>
           scrollFired t' = scrollFired t @ [spec_target (wasm_scrollback_length w) (rows t) (viewportY t) c] \<and>
           wasmTerm t' = Some w \<and> rows t' = rows t"
proof (cases c)
  case (ScrollLines a)
  with w d show ?thesis
    by (simp add: scrollLines_def Let_def getScrollbackLength_def clamp_offset_def fire_scroll_def)
next
  case (ScrollPages a)
  with w d show ?thesis
    by (simp add: scrollPages_def scrollLines_def Let_def getScrollbackLength_def clamp_offset_def
          fire_scroll_def)
next
  case ScrollToTop
  with w d p show ?thesis
    by (auto simp: scrollToTop_def Let_def getScrollbackLength_def fire_scroll_def)
next
  case ScrollToBottom
  with w d show ?thesis
    by (simp add: scrollToBottom_def getScrollbackLength_def fire_scroll_def)
next
  case (ScrollToLine n)
  with w d show ?thesis
    by (simp add: scrollToLine_def Let_def getScrollbackLength_def clamp_offset_def fire_scroll_def)
qed

lemma do_scrolls_fired:
  assumes "wasmTerm t = Some w"
    and "0 < wasm_scrollback_length w \<or> ScrollToTop \<notin> set cs"
    and "each_differs (viewportY t) (spec_offsets (wasm_scrollback_length w) (rows t) (viewportY t) cs)"
  shows "\<exists>t'. do_scrolls t cs = Inr t' \<and>
           scrollFired t' =
             scrollFired t @ spec_offsets (wasm_scrollback_length w) (rows t) (viewportY t) cs"
  using assms
proof (induction cs arbitrary: t)
  case Nil
  then show ?case by simp
next
  case (Cons c cs)
  let ?x = "spec_target (wasm_scrollback_length w) (rows t) (viewportY t) c"
  from Cons.prems(3) have d: "?x \<noteq> viewportY t"
    and rest: "each_differs ?x (spec_offsets (wasm_scrollback_length w) (rows t) ?x cs)"
    by simp_all
  from Cons.prems(2) have p: "0 < wasm_scrollback_length w \<or> c \<noteq> ScrollToTop"
    and ps: "0 < wasm_scrollback_length w \<or> ScrollToTop \<notin> set cs"
    by auto
  from do_scroll_step [OF Cons.prems(1) p d] obtain t1 where
    s: "do_scroll t c = Inr t1" and v: "viewportY t1 = ?x"
    and f: "scrollFired t1 = scrollFired t @ [?x]"
    and w1: "wasmTerm t1 = Some w" and r1: "rows t1 = rows t"
    by blast
  from rest have "each_differs (viewportY t1)
      (spec_offsets (wasm_scrollback_length w) (rows t1) (viewportY t1) cs)"
    by (simp add: v r1)
  from Cons.IH [OF w1 ps this] obtain t2 where
    "do_scrolls t1 cs = Inr t2"
    "scrollFired t2 = scrollFired t1 @ spec_offsets (wasm_scrollback_length w) (rows t1) (viewportY t1) cs"
    by blast
  then show ?case by (simp add: s f v r1)
qed

lemma length_spec_offsets: "length (spec_offsets n r v cs) = length cs"
  by (induction cs arbitrary: v) simp_all

lemma integral_of_int: "integral (of_int k)"
  by (simp add: integral_def floor_number_def)

lemma integralE: "integral x \<Longrightarrow> \<exists>k. x = of_int k"
  by (metis integral_def floor_number_def)

lemma integral_clamp: "integral x \<Longrightarrow> integral (clamp_offset n x)"
proof -
  assume "integral x"
  then obtain k where k: "x = of_int k" using integralE by blast
  have "clamp_offset n x = of_int (max 0 (min (int n) k))"
    by (simp add: clamp_offset_def k max_def min_def)
  then show ?thesis by (simp only: integral_of_int)
qed

lemma integral_diff: "integral x \<Longrightarrow> integral y \<Longrightarrow> integral (x - y)"
  by (metis integralE integral_of_int of_int_diff)

lemma integral_mult: "integral x \<Longrightarrow> integral (x * of_int k)"
  by (metis integralE integral_of_int of_int_mult)

lemma integral_target:
  "integral v \<Longrightarrow> integral_call c \<Longrightarrow> integral (spec_target n r v c)"
proof (cases c)
  case ScrollToTop
  then show ?thesis using integral_of_int [of "int n"] by simp
next
  case ScrollToBottom
  then show ?thesis using integral_of_int [of 0] by simp
qed (simp_all add: integral_clamp integral_diff integral_mult)

lemma integral_offsets:
  "integral v \<Longrightarrow> list_all integral_call cs \<Longrightarrow> list_all integral (spec_offsets n r v cs)"
  by (induction cs arbitrary: v) (simp_all add: integral_target)

lemma scrollToBottom_idle: "viewportY t = 0 \<Longrightarrow> (scrollToBottom ^^ k) t = t"
  by (induction k) (simp_all add: scrollToBottom_def)


lemma update_wasm_fields [simp]:
  "wasmTerm (update_wasm t w) = Some w"
  "viewportY (update_wasm t w) = viewportY t"
  "scrollFired (update_wasm t w) = scrollFired t"
  "isOpen (update_wasm t w) = isOpen t"
  "isDisposed (update_wasm t w) = isDisposed t"
  "scrollAnimationFrame (update_wasm t w) = scrollAnimationFrame t"
  "rafHandle (update_wasm t w) = rafHandle t"
  "dataFired (update_wasm t w) = dataFired t"
  "bellFired (update_wasm t w) = bellFired t"
  by (simp_all add: update_wasm_def)

lemma processTerminalResponses_fields [simp]:
  "viewportY (processTerminalResponses t) = viewportY t"
  "scrollFired (processTerminalResponses t) = scrollFired t"
  "isOpen (processTerminalResponses t) = isOpen t"
  "isDisposed (processTerminalResponses t) = isDisposed t"
  "scrollAnimationFrame (processTerminalResponses t) = scrollAnimationFrame t"
  "rafHandle (processTerminalResponses t) = rafHandle t"
  "wasmTerm (processTerminalResponses t) =
     map_option (\<lambda>w. w\<lparr>wasm_responses := []\<rparr>) (wasmTerm t)"
  by (simp_all add: processTerminalResponses_def split: option.splits)

lemma scrollToBottom_fields [simp]:
  "wasmTerm (scrollToBottom t) = wasmTerm t"
  "isOpen (scrollToBottom t) = isOpen t"
  "isDisposed (scrollToBottom t) = isDisposed t"
  "scrollAnimationFrame (scrollToBottom t) = scrollAnimationFrame t"
  "rafHandle (scrollToBottom t) = rafHandle t"
  by (simp_all add: scrollToBottom_def fire_scroll_def)

lemma scrollToBottom_moves:
  "viewportY t \<noteq> 0 \<Longrightarrow>
     viewportY (scrollToBottom t) = 0 \<and> scrollFired (scrollToBottom t) = scrollFired t @ [0]"
  by (simp add: scrollToBottom_def fire_scroll_def)

lemma writeInternal_snaps:
  assumes "wasmTerm t = Some w" and "viewportY t \<noteq> 0"
  shows "\<exists>t'. writeInternal t d = Inr t' \<and> viewportY t' = 0 \<and>
           scrollFired t' = scrollFired t @ [0] \<and>
           scrollAnimationFrame t' = scrollAnimationFrame t \<and> rafHandle t' = rafHandle t"
  using assms by (simp add: writeInternal_def Let_def scrollToBottom_moves)

lemma write_snaps:
  assumes "assertOpen t = None" and "wasmTerm t = Some w" and "0 < viewportY t"
  shows "\<exists>t'. terminal_write t d = Inr t' \<and> viewportY t' = 0 \<and>
           scrollFired t' = scrollFired t @ [0] \<and>
           scrollAnimationFrame t' = scrollAnimationFrame t \<and> rafHandle t' = rafHandle t"
proof -
  from assms(3) have "viewportY t \<noteq> 0" by simp
  from writeInternal_snaps [OF assms(2) this] assms(1) show ?thesis
    by (simp add: terminal_write_def)
qed

text \<open>
  Claim C2: after every scroll operation, whatever its argument, the offset lies within
  \<open>[0, scrollbackLength]\<close>. The immediate-mode calls keep the offset there (the lemmas
  \<open>scrollLines_in_range\<close>, \<open>scrollToLine_in_range\<close>, \<open>scrollToBottom_in_range\<close>,
  \<open>scrollToTop_in_range\<close> above). The wheel-driven \<^verbatim>\<open>smoothScrollTo\<close> does not: with a
  smooth-scroll duration of 10 ms, ten lines of scrollback and the offset at 0, a request
  for the target 10 leaves the offset at \<open>-160/9\<close>, below 0. The move ratio
  \<open>1 - (1 / frames)\<^sup>2\<close> is negative as soon as the duration covers less than one frame.
\<close>

theorem smooth_scroll_leaves_range:
  "map_option viewportY (smoothScrollTo (opened_with (Some 10) 10) 10 now) = Some (- 160 / 9) \<and>
   map_option in_range (smoothScrollTo (opened_with (Some 10) 10) 10 now) = Some False"
  by (simp add: smooth_eval requestAnimationFrame_def fire_scroll_def in_range_def)

text \<open>
  Claim C3: for every non-zero duration a smooth scroll settles on the last requested
  clamped target, the notified offsets moving monotonically towards it inside
  \<open>[0, scrollbackLength]\<close>. In the state of the previous theorem the first notification
  carries \<open>-18\<close>, and however many frames pass, a frame is still scheduled and the offset
  is still below 0: the animation moves away from the target and never settles.
\<close>

theorem smooth_scroll_never_settles:
  "\<exists>t1. smoothScrollTo (opened_with (Some 10) 10) 10 now = Some t1 \<and>
         scrollFired t1 = [- 18] \<and>
         (\<forall>n. \<exists>t'. run_frames n t1 = Some t' \<and> scrollAnimationFrame t' \<noteq> None \<and>
                    viewportY t' < 0)"
proof -
  let ?t1 = "requestAnimationFrame (showScrollbar_if_scrollback (fire_scroll
        ((opened_with (Some 10) 10)\<lparr>targetViewportY := 10, scrollAnimationStartTime := Some now,
            scrollAnimationStartY := Some 0, viewportY := - 160 / 9\<rparr>) (floor_number (- 160 / 9))))"
  have f: "scrollFired ?t1 = [- 18]"
    by (simp add: requestAnimationFrame_def fire_scroll_def floor_ex)
  have d: "diverging ?t1"
    by (simp add: diverging_def requestAnimationFrame_def fire_scroll_def duration_of_def)
  have "\<exists>t'. run_frames n ?t1 = Some t' \<and> scrollAnimationFrame t' \<noteq> None \<and> viewportY t' < 0" for n
    using diverging_forever [OF d, of n] by (auto simp: diverging_def)
  with f smooth_eval [of now] show ?thesis by blast
qed

lemma smooth_eval_100:
  "smoothScrollTo (opened_with (Some 100) 10) 10 now =
     Some (requestAnimationFrame (showScrollbar_if_scrollback (fire_scroll
        ((opened_with (Some 100) 10)\<lparr>targetViewportY := 10, scrollAnimationStartTime := Some now,
            scrollAnimationStartY := Some 0, viewportY := 175 / 18\<rparr>) (floor_number (175 / 18)))))"
  by (simp add: smoothScrollTo_def animateScroll_def Let_def duration_of_def getScrollbackLength_def
        power2_eq_square)

lemma not_integral_157_18: "\<not> integral (157 / 18)"
proof -
  have "\<lfloor>157 / 18 :: rat\<rfloor> = 8" by (simp add: floor_unique)
  then show ?thesis by (simp add: integral_def floor_number_def)
qed

lemma scrollLines_keeps:
  "scrollLines t a = Inr t' \<Longrightarrow>
     isOpen t' = isOpen t \<and> isDisposed t' = isDisposed t \<and> ghostty t' = ghostty t \<and>
     cols t' = cols t \<and> rows t' = rows t"
  by (auto simp: scrollLines_def Let_def fire_scroll_def showScrollbar_if_scrollback_def
        showScrollbar_def split: option.splits if_splits)




text \<open>
  Claim C5. When \<^verbatim>\<open>write\<close> delivers output to an open terminal whose offset is greater
  than 0, it returns with the offset at 0, having fired exactly one scroll notification
  (carrying 0) and without scheduling an animation frame.
\<close>

theorem write_returns_to_live_output:
  assumes "assertOpen t = None" and "wasmTerm t = Some w" and "0 < viewportY t"
  shows "\<exists>t'. terminal_write t d = Inr t' \<and> viewportY t' = 0 \<and>
           scrollFired t' = scrollFired t @ [0] \<and>
           scrollAnimationFrame t' = scrollAnimationFrame t \<and> rafHandle t' = rafHandle t"
  using assms by (rule write_snaps)

theorem write_returns_to_live_output_witness:
  "\<exists>t'. terminal_write ((opened_with None 10)\<lparr>viewportY := 5\<rparr>) ''ls'' = Inr t' \<and>
        viewportY t' = 0 \<and> scrollFired t' = [0]"
  using write_returns_to_live_output [of "(opened_with None 10)\<lparr>viewportY := 5\<rparr>" "blank_grid 10" "''ls''"]
  by (auto simp: assertOpen_def)

section \<open>Lifecycle: which operations raise\<close>

lemma assertOpen_usable: "(assertOpen t = None) = usable t"
  by (auto simp: assertOpen_def usable_def)

lemma guarded_throws:
  assumes "consistent t" and "\<not> usable t" and "guarded op"
  shows "throws (invoke t op)"
proof -
  from assms(2) obtain e where e: "assertOpen t = Some e"
    using assertOpen_usable [of t] by (cases "assertOpen t") auto
  from assms(1,2) have w: "wasmTerm t = None" by (simp add: consistent_def)
  show ?thesis
  proof (cases op)
    case (Scroll c)
    with assms(3) w show ?thesis
      by (cases c) (simp_all add: throws_def of_sum_def scrollLines_def scrollPages_def)
  qed (use assms(3) e in \<open>simp_all add: throws_def of_sum_def terminal_write_def paste_def
         terminal_input_def resize_def clear_def reset_def\<close>)
qed

lemma unguarded_never_throws: "unguarded op \<Longrightarrow> \<not> throws (invoke t op)"
proof (cases op)
  case (Scroll c)
  then show "unguarded op \<Longrightarrow> \<not> throws (invoke t op)"
    by (cases c) (simp_all add: throws_def of_sum_def)
qed (simp_all add: throws_def split: option.splits)

lemma unguarded_unusable:
  assumes "consistent t" and "\<not> usable t" and "unguarded op"
  shows "invoke t op =
           Returned (if snaps_to_zero op \<and> viewportY t \<noteq> 0
                     then fire_scroll (t\<lparr>viewportY := 0\<rparr>) 0 else t)"
proof -
  from assms(1,2) have w: "wasmTerm t = None" and m: "selectionManager t = None"
    by (simp_all add: consistent_def)
  have n: "getScrollbackLength t = 0" "getScrollbackLength (fire_scroll (t\<lparr>viewportY := 0\<rparr>) 0) = 0"
    by (simp_all add: getScrollbackLength_def w fire_scroll_def)
  show ?thesis
  proof (cases op)
    case (Scroll c)
    show ?thesis
    proof (cases c)
      case ScrollToTop
      with Scroll n show ?thesis by (simp add: of_sum_def scrollToTop_def)
    next
      case ScrollToBottom
      with Scroll n show ?thesis
        by (simp add: of_sum_def scrollToBottom_def showScrollbar_if_scrollback_def)
    next
      case (ScrollToLine k)
      have "max 0 (min 0 k) = (0::rat)" by (simp add: max_def min_def)
      with Scroll ScrollToLine n show ?thesis
        by (simp add: of_sum_def scrollToLine_def showScrollbar_if_scrollback_def)
    qed (use Scroll assms(3) in simp_all)
  qed (use assms(3) m in \<open>simp_all add: terminal_clearSelection_def terminal_selectAll_def
         terminal_select_def terminal_selectLines_def with_manager_def\<close>)
qed

lemma open_throws:
  "throws (invoke t (Open p)) =
     (isOpen t \<or> isDisposed t \<or> terminal_new (ghostty t) (cols t) (rows t) = None \<or>
      \<not> canvas_2d_context p \<or> key_encoder_new (ghostty t) \<noteq> 0)"
  by (auto simp: throws_def of_sum_def open_terminal_def createTerminal_def newCanvasRenderer_def
        createKeyEncoder_def split: option.splits)

lemma reset_throws:
  assumes "usable t"
  shows "throws (invoke t Reset) = (terminal_new (ghostty t) (cols t) (rows t) = None)"
proof -
  from assms have a: "assertOpen t = None" by (simp add: assertOpen_usable)
  show ?thesis
    by (auto simp: throws_def of_sum_def reset_def createTerminal_def a split: option.splits)
qed

lemma resize_throws:
  assumes "usable t" and "wasmTerm t = Some w"
  shows "throws (invoke t (Resize c r)) =
           ((c \<noteq> cols t \<or> r \<noteq> rows t) \<and> vt_resize (ghostty t) w c r = None)"
proof -
  from assms(1) have a: "assertOpen t = None" by (simp add: assertOpen_usable)
  show ?thesis
    by (auto simp: throws_def of_sum_def resize_def wasm_resize_def a assms(2)
          split: option.splits)
qed

lemma usable_never_throws:
  assumes "consistent t" and "usable t" and "\<not> engine_bound op"
  shows "\<not> throws (invoke t op)"
proof -
  from assms(2) have a: "assertOpen t = None" by (simp add: assertOpen_usable)
  from assms(1,2) obtain w where w: "wasmTerm t = Some w" by (auto simp: consistent_def)
  show ?thesis
  proof (cases op)
    case (Scroll c)
    with w show ?thesis
      by (cases c) (simp_all add: throws_def of_sum_def scrollLines_def scrollPages_def Let_def)
  next
    case (Input d u)
    with a w show ?thesis
      by (simp add: throws_def of_sum_def terminal_input_def terminal_write_def writeInternal_def Let_def)
  qed (use assms(3) a w in \<open>simp_all add: throws_def of_sum_def terminal_write_def writeInternal_def
         paste_def clear_def Let_def split: option.splits\<close>)
qed

lemma consistent_new: "consistent (new_terminal g c r dur)"
  by (simp add: consistent_def usable_def new_terminal_def)

lemma consistent_opened_with: "consistent (opened_with dur n) \<and> usable (opened_with dur n)"
  by (simp add: consistent_def usable_def opened_with_def new_terminal_def)

lemma with_manager_fields [simp]:
  "wasmTerm (with_manager t f) = wasmTerm t"
  "isOpen (with_manager t f) = isOpen t"
  "isDisposed (with_manager t f) = isDisposed t"
  "(selectionManager (with_manager t f) = None) = (selectionManager t = None)"
  by (simp_all add: with_manager_def split: option.splits)

lemma scroll_keeps_lifecycle:
  "do_scroll t c = Inr t' \<Longrightarrow>
     wasmTerm t' = wasmTerm t \<and> isOpen t' = isOpen t \<and> isDisposed t' = isDisposed t \<and>
     selectionManager t' = selectionManager t"
  by (cases c)
     (auto simp: scrollLines_def scrollPages_def scrollToTop_def scrollToBottom_def
        scrollToLine_def Let_def fire_scroll_def showScrollbar_if_scrollback_def showScrollbar_def
        split: option.splits if_splits)

lemma writeInternal_keeps:
  "writeInternal t d = Inr t' \<Longrightarrow>
     (wasmTerm t' = None) = (wasmTerm t = None) \<and> isOpen t' = isOpen t \<and>
     isDisposed t' = isDisposed t \<and>
     (selectionManager t' = None) = (selectionManager t = None)"
  by (cases "wasmTerm t"; cases "CHR 0x07 \<in> set d";
      cases "viewportY t = 0")
     (auto simp add: writeInternal_def Let_def processTerminalResponses_def update_wasm_def
        scrollToBottom_def fire_scroll_def showScrollbar_if_scrollback_def showScrollbar_def
        split: option.splits if_splits)

lemma write_keeps:
  "terminal_write t d = Inr t' \<Longrightarrow>
     (wasmTerm t' = None) = (wasmTerm t = None) \<and> isOpen t' = isOpen t \<and>
     isDisposed t' = isDisposed t \<and>
     (selectionManager t' = None) = (selectionManager t = None)"
  by (cases "assertOpen t") (simp_all add: terminal_write_def writeInternal_keeps)

lemma keeps_consistent:
  assumes "consistent t"
    and "(wasmTerm t' = None) = (wasmTerm t = None)"
    and "isOpen t' = isOpen t" and "isDisposed t' = isDisposed t"
    and "(selectionManager t' = None) = (selectionManager t = None)"
  shows "consistent t'"
  using assms unfolding consistent_def usable_def by auto

lemma consistent_invoke:
  assumes "consistent t" and "invoke t op = Returned t'"
  shows "consistent t'"
proof (cases op)
  case (Open p)
  with assms show ?thesis
    by (auto simp: of_sum_def open_terminal_def consistent_def usable_def
        split: if_splits sum.splits option.splits)
next
  case Dispose
  with assms show ?thesis
    by (cases "isDisposed t") (auto simp: dispose_def consistent_def usable_def)
next
  case (Write d)
  with assms(2) have "terminal_write t d = Inr t'"
    by (simp add: of_sum_def split: sum.splits)
  from write_keeps [OF this] show ?thesis
    by (intro keeps_consistent [OF assms(1)]) simp_all
next
  case (Paste d)
  with assms(2) have "paste t d = Inr t'"
    by (simp add: of_sum_def split: sum.splits)
  then have "(wasmTerm t' = None) = (wasmTerm t = None) \<and> isOpen t' = isOpen t \<and>
     isDisposed t' = isDisposed t \<and> (selectionManager t' = None) = (selectionManager t = None)"
    by (auto simp: paste_def dest: writeInternal_keeps split: option.splits if_splits)
  then show ?thesis
    by (intro keeps_consistent [OF assms(1)]) simp_all
next
  case (Input d u)
  with assms(2) have i: "terminal_input t d u = Inr t'"
    by (simp add: of_sum_def split: sum.splits)
  have "(wasmTerm t' = None) = (wasmTerm t = None) \<and> isOpen t' = isOpen t \<and>
     isDisposed t' = isDisposed t \<and> (selectionManager t' = None) = (selectionManager t = None)"
  proof (cases "assertOpen t = None \<and> \<not> disableStdin t \<and> \<not> u")
    case True
    with i have "terminal_write t d = Inr t'" by (simp add: terminal_input_def)
    then show ?thesis by (rule write_keeps)
  next
    case False
    with i show ?thesis
      by (auto simp: terminal_input_def split: option.splits if_splits)
  qed
  then show ?thesis
    by (intro keeps_consistent [OF assms(1)]) simp_all
next
  case (Resize c r)
  with assms(2) have "resize t c r = Inr t'"
    by (simp add: of_sum_def split: sum.splits)
  then have "(wasmTerm t' = None) = (wasmTerm t = None) \<and> isOpen t' = isOpen t \<and>
     isDisposed t' = isDisposed t \<and> (selectionManager t' = None) = (selectionManager t = None)"
    by (auto simp: resize_def update_wasm_def split: option.splits sum.splits if_splits)
  then show ?thesis
    by (intro keeps_consistent [OF assms(1)]) simp_all
next
  case Clear
  with assms(2) have "clear t = Inr t'"
    by (simp add: of_sum_def split: sum.splits)
  then have "(wasmTerm t' = None) = (wasmTerm t = None) \<and> isOpen t' = isOpen t \<and>
     isDisposed t' = isDisposed t \<and> (selectionManager t' = None) = (selectionManager t = None)"
    by (auto simp: clear_def update_wasm_def split: option.splits sum.splits if_splits)
  then show ?thesis
    by (intro keeps_consistent [OF assms(1)]) simp_all
next
  case Reset
  with assms(2) have r: "reset t = Inr t'"
    by (simp add: of_sum_def split: sum.splits)
  then have a: "assertOpen t = None"
    by (simp add: reset_def split: option.splits)
  then have "usable t" by (simp add: assertOpen_usable)
  with assms(1) have "wasmTerm t \<noteq> None" by (simp add: consistent_def)
  with r a have "(wasmTerm t' = None) = (wasmTerm t = None) \<and> isOpen t' = isOpen t \<and>
     isDisposed t' = isDisposed t \<and> (selectionManager t' = None) = (selectionManager t = None)"
    by (auto simp: reset_def split: sum.splits)
  then show ?thesis
    by (intro keeps_consistent [OF assms(1)]) simp_all
next
  case (Scroll c)
  with assms(2) have "do_scroll t c = Inr t'"
    by (simp add: of_sum_def split: sum.splits)
  from scroll_keeps_lifecycle [OF this] show ?thesis
    by (intro keeps_consistent [OF assms(1)]) simp_all
next
  case ClearSelection
  with assms(2) have "t' = with_manager t clearSelection"
    by (simp add: terminal_clearSelection_def)
  then show ?thesis
    by (intro keeps_consistent [OF assms(1)]) simp_all
next
  case SelectAll
  with assms(2) have "t' = with_manager t selectAll"
    by (simp add: terminal_selectAll_def)
  then show ?thesis
    by (intro keeps_consistent [OF assms(1)]) simp_all
next
  case (Select c r len)
  with assms(2) have "t' = t \<or> (\<exists>f. t' = with_manager t f)"
    by (auto simp: terminal_select_def split: option.splits)
  then show ?thesis
    by (intro keeps_consistent [OF assms(1)]) auto
next
  case (SelectLines a b)
  with assms(2) have "t' = with_manager t (\<lambda>s. selectLines s a b)"
    by (simp add: terminal_selectLines_def)
  then show ?thesis
    by (intro keeps_consistent [OF assms(1)]) simp_all
qed

text \<open>
  Claim C9 says that every mutating operation raises before \<^verbatim>\<open>open\<close> and after
  \<^verbatim>\<open>dispose\<close>, and that nothing else makes this layer raise. On a terminal that was never
  opened \<^verbatim>\<open>scrollToTop\<close> returns; on a disposed one \<^verbatim>\<open>scrollToLine\<close> returns, and
  when the offset was 5 it has moved it to 0 and fired a notification; on an open terminal
  a second \<^verbatim>\<open>open\<close> raises, and so does \<^verbatim>\<open>reset\<close> when the engine cannot allocate a
  new grid.
\<close>

theorem lifecycle_counterexample:
  "\<not> usable (new_terminal idle_engine 80 24 None) \<and>
   \<not> throws (invoke (new_terminal idle_engine 80 24 None) (Scroll ScrollToTop)) \<and>
   \<not> usable (dispose ((opened_with None 10)\<lparr>viewportY := 5\<rparr>)) \<and>
   invoke (dispose ((opened_with None 10)\<lparr>viewportY := 5\<rparr>)) (Scroll (ScrollToLine 5)) =
     Returned ((dispose ((opened_with None 10)\<lparr>viewportY := 5\<rparr>))
                 \<lparr>viewportY := 0, scrollFired := [0]\<rparr>) \<and>
   usable (opened_with None 10) \<and>
   throws (invoke (opened_with None 10) (Open browser_element)) \<and>
   usable ((opened_with None 10)\<lparr>ghostty := exhausted_engine\<rparr>) \<and>
   throws (invoke ((opened_with None 10)\<lparr>ghostty := exhausted_engine\<rparr>) Reset)"
  by (simp add: usable_def throws_def of_sum_def new_terminal_def dispose_def open_terminal_def
        opened_with_def scrollToTop_def scrollToLine_def getScrollbackLength_def fire_scroll_def
        showScrollbar_if_scrollback_def reset_def assertOpen_def createTerminal_def
        exhausted_engine_def idle_engine_def Let_def)

text \<open>
  Claim C9, amended, for a terminal whose engine handle and selection manager exist
  exactly while it is usable, that is, open and not disposed (true of a new terminal and
  kept by every call that returns: \<open>consistent_new\<close>, \<open>consistent_invoke\<close>).
  \<^verbatim>\<open>write\<close>, \<^verbatim>\<open>paste\<close>, \<^verbatim>\<open>input\<close>, \<^verbatim>\<open>resize\<close>, \<^verbatim>\<open>clear\<close>, \<^verbatim>\<open>reset\<close>,
  \<^verbatim>\<open>scrollLines\<close> and \<^verbatim>\<open>scrollPages\<close> raise when the terminal is not usable.
  \<^verbatim>\<open>scrollToTop\<close>, \<^verbatim>\<open>scrollToBottom\<close>, \<^verbatim>\<open>scrollToLine\<close> and the selection calls never
  raise; on a terminal that is not usable they return, \<^verbatim>\<open>scrollToBottom\<close> and
  \<^verbatim>\<open>scrollToLine\<close> having set a non-zero offset to 0 and fired one scroll notification
  carrying 0, and every other case leaving the terminal as it was. On a usable terminal no
  call other than \<^verbatim>\<open>open\<close>, \<^verbatim>\<open>reset\<close> and \<^verbatim>\<open>resize\<close> raises, the engine being
  taken to accept the output it is fed; \<^verbatim>\<open>reset\<close> raises exactly
  when the engine cannot allocate a grid; \<^verbatim>\<open>resize\<close> raises exactly when the dimensions
  differ from the current ones and the engine traps on them. \<^verbatim>\<open>dispose\<close> never raises.
  \<^verbatim>\<open>open\<close> raises exactly when the terminal is already open, or is disposed, or the engine
  cannot allocate a grid, or the canvas has no 2D context, or the key encoder cannot be
  created.
\<close>

theorem lifecycle_guard:
  assumes "consistent t"
  shows "(\<not> usable t \<and> guarded op \<longrightarrow> throws (invoke t op)) \<and>
         (unguarded op \<longrightarrow> \<not> throws (invoke t op)) \<and>
         (\<not> usable t \<and> unguarded op \<longrightarrow>
            invoke t op =
              Returned (if snaps_to_zero op \<and> viewportY t \<noteq> 0
                        then fire_scroll (t\<lparr>viewportY := 0\<rparr>) 0 else t)) \<and>
         (usable t \<and> \<not> engine_bound op \<longrightarrow> \<not> throws (invoke t op)) \<and>
         (usable t \<longrightarrow>
            throws (invoke t Reset) = (terminal_new (ghostty t) (cols t) (rows t) = None)) \<and>
         (usable t \<longrightarrow>
            throws (invoke t (Resize c r)) =
              ((c \<noteq> cols t \<or> r \<noteq> rows t) \<and>
               (\<exists>w. wasmTerm t = Some w \<and> vt_resize (ghostty t) w c r = None))) \<and>
         \<not> throws (invoke t Dispose) \<and>
         throws (invoke t (Open p)) =
           (isOpen t \<or> isDisposed t \<or> terminal_new (ghostty t) (cols t) (rows t) = None \<or>
            \<not> canvas_2d_context p \<or> key_encoder_new (ghostty t) \<noteq> 0)"
proof (intro conjI impI)
  show "throws (invoke t (Open p)) =
           (isOpen t \<or> isDisposed t \<or> terminal_new (ghostty t) (cols t) (rows t) = None \<or>
            \<not> canvas_2d_context p \<or> key_encoder_new (ghostty t) \<noteq> 0)"
    by (rule open_throws)
next
  show "\<not> throws (invoke t Dispose)" by (simp add: throws_def)
next
  assume "\<not> usable t \<and> guarded op"
  with assms show "throws (invoke t op)" by (simp add: guarded_throws)
next
  assume "unguarded op"
  then show "\<not> throws (invoke t op)" by (rule unguarded_never_throws)
next
  assume "\<not> usable t \<and> unguarded op"
  with assms show "invoke t op =
              Returned (if snaps_to_zero op \<and> viewportY t \<noteq> 0
                        then fire_scroll (t\<lparr>viewportY := 0\<rparr>) 0 else t)"
    by (simp add: unguarded_unusable)
next
  assume "usable t \<and> \<not> engine_bound op"
  with assms show "\<not> throws (invoke t op)" by (simp add: usable_never_throws)
next
  assume "usable t"
  then show "throws (invoke t Reset) = (terminal_new (ghostty t) (cols t) (rows t) = None)"
    by (rule reset_throws)
next
  assume u: "usable t"
  with assms obtain w where w: "wasmTerm t = Some w" by (auto simp: consistent_def)
  from resize_throws [OF u w, of c r] w
  show "throws (invoke t (Resize c r)) =
              ((c \<noteq> cols t \<or> r \<noteq> rows t) \<and>
               (\<exists>w. wasmTerm t = Some w \<and> vt_resize (ghostty t) w c r = None))"
    by simp
qed

theorem lifecycle_guard_witness:
  "throws (invoke (new_terminal idle_engine 80 24 None) (Write ''ls'')) \<and>
   throws (invoke (dispose (opened_with None 10)) (Scroll (ScrollLines 1))) \<and>
   invoke (new_terminal idle_engine 80 24 None) (Scroll ScrollToBottom) =
     Returned (new_terminal idle_engine 80 24 None) \<and>
   \<not> throws (invoke (opened_with None 10) (Write ''ls'')) \<and>
   throws (invoke ((opened_with None 10)\<lparr>ghostty := exhausted_engine\<rparr>) Reset) \<and>
   \<not> throws (invoke (opened_with None 10) (Resize 100 30)) \<and>
   \<not> throws (invoke (new_terminal idle_engine 80 24 None) (Open browser_element)) \<and>
   throws (invoke (opened_with None 10) (Open browser_element))"
  using lifecycle_guard [of "new_terminal idle_engine 80 24 None" "Write ''ls''" 100 30 browser_element]
    lifecycle_guard [of "dispose (opened_with None 10)" "Scroll (ScrollLines 1)" 100 30 browser_element]
    lifecycle_guard [of "new_terminal idle_engine 80 24 None" "Scroll ScrollToBottom" 100 30 browser_element]
    lifecycle_guard [of "opened_with None 10" "Write ''ls''" 100 30 browser_element]
    lifecycle_guard [of "(opened_with None 10)\<lparr>ghostty := exhausted_engine\<rparr>" "Write ''ls''" 100 30 browser_element]
  by (simp add: consistent_def usable_def new_terminal_def dispose_def opened_with_def
        exhausted_engine_def idle_engine_def browser_element_def)

section \<open>Input handler: key table and de-duplication\<close>

lemma key_lookups:
  "mapKeyCode ''Enter'' = Some (Key ''ENTER'')"
  "mapKeyCode ''Tab'' = Some (Key ''TAB'')"
  "mapKeyCode ''Backspace'' = Some (Key ''BACKSPACE'')"
  "mapKeyCode ''Escape'' = Some (Key ''ESCAPE'')"
  "mapKeyCode ''Home'' = Some (Key ''HOME'')"
  "mapKeyCode ''End'' = Some (Key ''END'')"
  "mapKeyCode ''Insert'' = Some (Key ''INSERT'')"
  "mapKeyCode ''Delete'' = Some (Key ''DELETE'')"
  "mapKeyCode ''PageUp'' = Some (Key ''PAGE_UP'')"
  "mapKeyCode ''PageDown'' = Some (Key ''PAGE_DOWN'')"
  "mapKeyCode ''F1'' = Some (Key ''F1'')"
  "mapKeyCode ''F2'' = Some (Key ''F2'')"
  "mapKeyCode ''F3'' = Some (Key ''F3'')"
  "mapKeyCode ''F4'' = Some (Key ''F4'')"
  "mapKeyCode ''F5'' = Some (Key ''F5'')"
  "mapKeyCode ''F6'' = Some (Key ''F6'')"
  "mapKeyCode ''F7'' = Some (Key ''F7'')"
  "mapKeyCode ''F8'' = Some (Key ''F8'')"
  "mapKeyCode ''F9'' = Some (Key ''F9'')"
  "mapKeyCode ''F10'' = Some (Key ''F10'')"
  "mapKeyCode ''F11'' = Some (Key ''F11'')"
  "mapKeyCode ''F12'' = Some (Key ''F12'')"
  by (simp_all add: mapKeyCode_def KEY_MAP_def)

lemma simple_outputs:
  "simpleOutput (Key ''ENTER'') = Some ([CHR 0x0D])"
  "simpleOutput (Key ''TAB'') = Some ([CHR 0x09])"
  "simpleOutput (Key ''BACKSPACE'') = Some ([CHR 0x7F])"
  "simpleOutput (Key ''ESCAPE'') = Some ([CHR 0x1B])"
  "simpleOutput (Key ''HOME'') = Some (CHR 0x1B # ''[H'')"
  "simpleOutput (Key ''END'') = Some (CHR 0x1B # ''[F'')"
  "simpleOutput (Key ''INSERT'') = Some (CHR 0x1B # ''[2~'')"
  "simpleOutput (Key ''DELETE'') = Some (CHR 0x1B # ''[3~'')"
  "simpleOutput (Key ''PAGE_UP'') = Some (CHR 0x1B # ''[5~'')"
  "simpleOutput (Key ''PAGE_DOWN'') = Some (CHR 0x1B # ''[6~'')"
  "simpleOutput (Key ''F1'') = Some (CHR 0x1B # ''OP'')"
  "simpleOutput (Key ''F2'') = Some (CHR 0x1B # ''OQ'')"
  "simpleOutput (Key ''F3'') = Some (CHR 0x1B # ''OR'')"
  "simpleOutput (Key ''F4'') = Some (CHR 0x1B # ''OS'')"
  "simpleOutput (Key ''F5'') = Some (CHR 0x1B # ''[15~'')"
  "simpleOutput (Key ''F6'') = Some (CHR 0x1B # ''[17~'')"
  "simpleOutput (Key ''F7'') = Some (CHR 0x1B # ''[18~'')"
  "simpleOutput (Key ''F8'') = Some (CHR 0x1B # ''[19~'')"
  "simpleOutput (Key ''F9'') = Some (CHR 0x1B # ''[20~'')"
  "simpleOutput (Key ''F10'') = Some (CHR 0x1B # ''[21~'')"
  "simpleOutput (Key ''F11'') = Some (CHR 0x1B # ''[23~'')"
  "simpleOutput (Key ''F12'') = Some (CHR 0x1B # ''[24~'')"
  by (simp_all add: simpleOutput_def)

lemma simple_key:
  "(c, s) \<in> set documented_sequence \<Longrightarrow> \<exists>k. mapKeyCode c = Some k \<and> simpleOutput k = Some s"
  unfolding documented_sequence_def
  by (auto simp: key_lookups simple_outputs)

lemma plain_mods:
  "\<not> ke_ctrlKey ev \<Longrightarrow> \<not> ke_altKey ev \<Longrightarrow> \<not> ke_metaKey ev \<Longrightarrow>
     extractModifiers ev = Mods_NONE \<or> extractModifiers ev = Mods_SHIFT"
  by (simp add: extractModifiers_def Let_def Mods_NONE_def Mods_SHIFT_def)

lemma handleKeyDown_simple:
  assumes live: "\<not> ih_isDisposed h" "\<not> isComposing h" "\<not> ke_isComposing ev" "ke_keyCode ev \<noteq> 229"
    and custom: "\<not> (case customKeyEventHandler h of None \<Rightarrow> False | Some f \<Rightarrow> f ev)"
    and mods: "\<not> ke_ctrlKey ev" "\<not> ke_altKey ev" "\<not> ke_metaKey ev"
    and named: "length (ke_key ev) \<noteq> 1"
    and doc: "(ke_code ev, s) \<in> set documented_sequence"
  shows "emitted (handleKeyDown h ev now) = emitted h @ [s] \<and>
         lastKeyDownData (handleKeyDown h ev now) = Some s \<and>
         lastKeyDownTime (handleKeyDown h ev now) = now"
proof -
  from simple_key [OF doc] obtain k where k: "mapKeyCode (ke_code ev) = Some k"
    and out: "simpleOutput k = Some s" by blast
  from plain_mods [OF mods] have m: "extractModifiers ev = Mods_NONE \<or> extractModifiers ev = Mods_SHIFT" .
  have p: "\<not> isPrintableCharacter ev" using mods named by (simp add: isPrintableCharacter_def)
  from custom have c: "\<not> (case customKeyEventHandler (if onKeyCallback h then h\<lparr>keysObserved := keysObserved h @ [ke_key ev]\<rparr> else h) of None \<Rightarrow> False | Some f \<Rightarrow> f ev)"
    by simp
  show ?thesis
    using live mods p k out m c
    by (simp add: handleKeyDown_def Let_def recordKeyDownData_def onDataCallback_def)
qed


text \<open>
  Claim C7. A key-down of Enter, Tab, Backspace, Escape, Home, End, Insert, Delete, PageUp,
  PageDown or F1 to F12 with no modifier or with shift only sends exactly the documented
  sequence for that key. The event is one that reaches the key table: the handler is live
  and not composing, no custom handler consumes the event, and the event's \<^verbatim>\<open>key\<close> is
  the key's name rather than a single character.
\<close>

theorem fixed_key_sequences:
  assumes "\<not> ih_isDisposed h" and "\<not> isComposing h"
    and "\<not> ke_isComposing ev" and "ke_keyCode ev \<noteq> 229"
    and "\<not> (case customKeyEventHandler h of None \<Rightarrow> False | Some f \<Rightarrow> f ev)"
    and "\<not> ke_ctrlKey ev" and "\<not> ke_altKey ev" and "\<not> ke_metaKey ev"
    and "length (ke_key ev) \<noteq> 1"
    and "(ke_code ev, s) \<in> set documented_sequence"
  shows "emitted (handleKeyDown h ev now) = emitted h @ [s]"
  using handleKeyDown_simple [OF assms] by simp

theorem fixed_key_sequences_witness:
  "emitted (handleKeyDown new_handler (key_event ''F5'' ''F5'' True) 0) = [CHR 0x1B # ''[15~''] \<and>
   emitted (handleKeyDown new_handler (key_event ''Enter'' ''Enter'' False) 0) = [[CHR 0x0D]]"
  using fixed_key_sequences [of new_handler "key_event ''F5'' ''F5'' True" "CHR 0x1B # ''[15~''" 0]
    fixed_key_sequences [of new_handler "key_event ''Enter'' ''Enter'' False" "[CHR 0x0D]" 0]
  by (simp add: new_handler_def key_event_def documented_sequence_def)

lemma keydown_record_dropped:
  "shouldIgnoreBeforeInput (recordKeyDownData new_handler ''a'' 0) ''b'' 1 =
     (False, (recordKeyDownData new_handler ''a'' 0)\<lparr>lastKeyDownData := None\<rparr>)"
  by (simp add: shouldIgnoreBeforeInput_def recordKeyDownData_def truthy_def new_handler_def)

lemma composition_check_clears_iff:
  "lastCompositionData (snd (shouldIgnoreBeforeInputFromComposition h d now)) =
     (if fst (shouldIgnoreBeforeInputFromComposition h d now) then None else lastCompositionData h)"
  by (simp add: shouldIgnoreBeforeInputFromComposition_def Let_def)

lemma beforeinput_check_clears_iff:
  "lastBeforeInputData (snd (shouldIgnoreCompositionEnd h d now)) =
     (if fst (shouldIgnoreCompositionEnd h d now) then None else lastBeforeInputData h)"
  by (simp add: shouldIgnoreCompositionEnd_def Let_def)

lemma paste_check_clears_iff:
  "lastPasteData (snd (shouldIgnorePasteEvent h d src now)) =
     (if fst (shouldIgnorePasteEvent h d src now) then None else lastPasteData h)"
  by (simp add: shouldIgnorePasteEvent_def Let_def)

lemma keydown_check_clears:
  "lastKeyDownData (snd (shouldIgnoreBeforeInput h d now)) =
     (if truthy (lastKeyDownData h) then None else lastKeyDownData h)"
  by (simp add: shouldIgnoreBeforeInput_def)

text \<open>
  Claim C6: a de-duplication record is cleared exactly when it suppresses a duplicate, and
  never by a check that suppresses nothing. The composition, \<^verbatim>\<open>beforeinput\<close> and paste
  records behave so (the three lemmas above). The key-down record does not: with ``a''
  recorded at time 0, the check of a \<^verbatim>\<open>beforeinput\<close> carrying ``b'' at time 1 answers
  no and clears the record all the same, so that a \<^verbatim>\<open>beforeinput\<close> repeating ``a'' at
  time 2, inside the window, is sent a second time.
\<close>

theorem keydown_record_cleared_without_suppressing:
  "fst (shouldIgnoreBeforeInput (recordKeyDownData new_handler ''a'' 0) ''b'' 1) = False \<and>
   lastKeyDownData (snd (shouldIgnoreBeforeInput (recordKeyDownData new_handler ''a'' 0) ''b'' 1)) = None \<and>
   emitted (handleBeforeInput
             (handleBeforeInput
                (handleKeyDown new_handler (key_event ''KeyA'' ''a'' False) 0)
                (input_event ''insertText'' ''b'') 1)
             (input_event ''insertText'' ''a'') 2) = [''a'', ''b'', ''a'']"
  by (simp add: shouldIgnoreBeforeInput_def recordKeyDownData_def truthy_def new_handler_def
        handleBeforeInput_def handleKeyDown_def key_event_def input_event_def Let_def
        isPrintableCharacter_def beforeInputOutput_def onDataCallback_def newlines_to_cr_def
        shouldIgnoreBeforeInputFromComposition_def recordBeforeInputData_def
        BEFORE_INPUT_IGNORE_MS_def)


lemmas ih_defs =
  handleBeforeInput_def handleCompositionEnd_def beforeInputOutput_def input_event_def
  shouldIgnoreBeforeInput_def shouldIgnoreBeforeInputFromComposition_def
  shouldIgnoreCompositionEnd_def shouldIgnorePasteEvent_def recordBeforeInputData_def
  recordCompositionData_def recordPasteData_def emitPasteData_def onDataCallback_def
  cleanupCompositionTextNodes_def truthy_def BEFORE_INPUT_IGNORE_MS_def quiet_def Let_def
  bracketed_def

lemma newlines_to_cr_nonempty: "x \<noteq> [] \<Longrightarrow> newlines_to_cr x \<noteq> []"
  by (simp add: newlines_to_cr_def)

lemma newlines_to_cr_id: "CHR 0x0A \<notin> set x \<Longrightarrow> newlines_to_cr x = x"
  by (induction x) (auto simp: newlines_to_cr_def)

lemma composition_then_beforeinput:
  assumes "\<not> ih_isDisposed h" and "x \<noteq> []" and "quiet h x"
  shows "emitted (handleBeforeInput (handleCompositionEnd h (Some x) t1)
                    (input_event ''insertText'' x) t2) =
           (if t2 - t1 < 100 then emitted h @ [x] else emitted h @ [x, newlines_to_cr x])"
  using assms newlines_to_cr_nonempty [of x]
  by (cases "lastBeforeInputData h"; cases "lastKeyDownData h")
     (auto simp: ih_defs)

lemma beforeinput_then_composition:
  assumes "\<not> ih_isDisposed h" and "\<not> isComposing h" and "x \<noteq> []" and "quiet h x"
  shows "emitted (handleCompositionEnd (handleBeforeInput h (input_event ''insertText'' x) t1)
                    (Some x) t2) =
           (if t2 - t1 < 100 then emitted h @ [newlines_to_cr x]
            else emitted h @ [newlines_to_cr x, x])"
  using assms newlines_to_cr_nonempty [of x]
  by (cases "lastCompositionData h"; cases "lastKeyDownData h")
     (auto simp: ih_defs)

lemma composition_then_paste_input:
  assumes "\<not> ih_isDisposed h" and "x \<noteq> []" and "quiet h x"
  shows "emitted (handleBeforeInput (handleCompositionEnd h (Some x) t1)
                    (input_event ''insertFromPaste'' x) t2) =
           emitted h @ [x, bracketed h x]"
  using assms
  by (cases "lastBeforeInputData h"; cases "lastPasteData h"; cases "lastPasteSource h")
     (auto simp: ih_defs)

lemma third_delivery_after_pair:
  assumes "\<not> ih_isDisposed h" and "x \<noteq> []" and "quiet h x" and "t2 - t1 < 100"
  shows "emitted (handleCompositionEnd
                    (handleBeforeInput (handleCompositionEnd h (Some x) t1)
                       (input_event ''insertText'' x) t2) (Some x) t3) =
           emitted h @ [x, x]"
  using assms newlines_to_cr_nonempty [of x]
  by (cases "lastBeforeInputData h"; cases "lastKeyDownData h")
     (auto simp: ih_defs)


text \<open>
  Claim C1 says that a composition commit of a text and a \<^verbatim>\<open>beforeinput\<close> of type
  insertFromPaste or insertText carrying the same text, within the window, emit one
  payload. With the type insertFromPaste both deliveries emit.
\<close>

theorem composition_paste_input_both_emit:
  "emitted (handleBeforeInput (handleCompositionEnd new_handler (Some ''ab'') 0)
              (input_event ''insertFromPaste'' ''ab'') 1) = [''ab'', ''ab'']"
  by (simp add: ih_defs new_handler_def)

text \<open>
  Claim C1, amended. Let a non-empty text reach a live handler that is not composing and
  holds no record of it, once as a composition commit and once as a \<^verbatim>\<open>beforeinput\<close> of
  type insertText. When the second delivery comes less than 100 ms after the first, exactly
  one payload is emitted: the text itself when the commit comes first, the text with its
  newlines turned into carriage returns (the text itself when it has none) when the
  \<^verbatim>\<open>beforeinput\<close> comes first; a further commit of the text after such a pair emits
  again. When the second delivery comes 100 ms or more after the first, both emit. A
  \<^verbatim>\<open>beforeinput\<close> of type insertFromPaste after a commit always emits as well, in
  bracketed-paste form when that mode is on.
\<close>

theorem composition_beforeinput_once:
  assumes "\<not> ih_isDisposed h" and "\<not> isComposing h" and "x \<noteq> []" and "quiet h x"
  shows "(t2 - t1 < 100 \<longrightarrow>
            emitted (handleBeforeInput (handleCompositionEnd h (Some x) t1)
                       (input_event ''insertText'' x) t2) = emitted h @ [x] \<and>
            emitted (handleCompositionEnd (handleBeforeInput h (input_event ''insertText'' x) t1)
                       (Some x) t2) = emitted h @ [newlines_to_cr x] \<and>
            emitted (handleCompositionEnd
                       (handleBeforeInput (handleCompositionEnd h (Some x) t1)
                          (input_event ''insertText'' x) t2) (Some x) t3) = emitted h @ [x, x]) \<and>
         (100 \<le> t2 - t1 \<longrightarrow>
            emitted (handleBeforeInput (handleCompositionEnd h (Some x) t1)
                       (input_event ''insertText'' x) t2) = emitted h @ [x, newlines_to_cr x] \<and>
            emitted (handleCompositionEnd (handleBeforeInput h (input_event ''insertText'' x) t1)
                       (Some x) t2) = emitted h @ [newlines_to_cr x, x]) \<and>
         emitted (handleBeforeInput (handleCompositionEnd h (Some x) t1)
                    (input_event ''insertFromPaste'' x) t2) = emitted h @ [x, bracketed h x] \<and>
         (CHR 0x0A \<notin> set x \<longrightarrow> newlines_to_cr x = x)"
  using composition_then_beforeinput [OF assms(1,3,4), of t1 t2]
    beforeinput_then_composition [OF assms, of t1 t2]
    composition_then_paste_input [OF assms(1,3,4), of t1 t2]
    third_delivery_after_pair [OF assms(1,3,4), of t2 t1 t3]
    newlines_to_cr_id [of x]
  by simp

theorem composition_beforeinput_once_witness:
  "emitted (handleBeforeInput (handleCompositionEnd new_handler (Some ''ab'') 0)
              (input_event ''insertText'' ''ab'') 5) = [''ab''] \<and>
   emitted (handleCompositionEnd (handleBeforeInput new_handler (input_event ''insertText'' ''ab'') 0)
              (Some ''ab'') 5) = [''ab''] \<and>
   emitted (handleBeforeInput (handleCompositionEnd new_handler (Some ''ab'') 0)
              (input_event ''insertText'' ''ab'') 250) = [''ab'', ''ab'']"
  using composition_beforeinput_once [of new_handler "''ab''" 5 0 9]
    composition_beforeinput_once [of new_handler "''ab''" 250 0 0]
  by (simp add: new_handler_def quiet_def newlines_to_cr_def)

section \<open>Selection: text extraction\<close>

lemma cells_between_empty: "e < c \<Longrightarrow> cells_between line c e = []"
  by (simp add: cells_between_def)

lemma cells_between_step:
  "c \<le> e \<Longrightarrow>
     cells_between line c e =
       (case at_index line c of None \<Rightarrow> [] | Some x \<Rightarrow> [x]) @ cells_between line (c + 1) e"
  by (simp add: cells_between_def at_index_def upto_rec1 [of c e])

lemma at_index_mem: "at_index line c = Some x \<Longrightarrow> x \<in> set line"
  by (auto simp: at_index_def split: if_splits)

lemma cols_loop_spec:
  "list_all (\<lambda>c. codepoint c \<le> 0x10FFFF) line \<Longrightarrow>
     cols_loop line c e acc = Inr (acc @ spec_row_text line c e)"
proof (induction line c e acc rule: cols_loop.induct)
  case (1 line c colEnd acc)
  show ?case
  proof (cases "c \<le> colEnd")
    case False
    then show ?thesis
      by (simp add: cols_loop.simps [of line c colEnd acc] spec_row_text_def cells_between_empty)
  next
    case True
    note le = this
    show ?thesis
    proof (cases "at_index line c")
      case None
      with le "1.IH"(1) "1.prems" show ?thesis
        by (simp add: cols_loop.simps [of line c colEnd acc] spec_row_text_def
              cells_between_step [of c colEnd line])
    next
      case (Some cell)
      then have v: "codepoint cell \<le> 0x10FFFF"
        using "1.prems" at_index_mem [of line c cell] by (auto simp: list_all_iff)
      show ?thesis
      proof (cases "width cell = 0")
        case True
        with le Some "1.IH"(2) "1.prems" show ?thesis
          by (simp add: cols_loop.simps [of line c colEnd acc] spec_row_text_def
                cells_between_step [of c colEnd line])
      next
        case False
        note w = this
        show ?thesis
        proof (cases "codepoint cell = 0")
          case True
          with le Some w "1.IH"(4) "1.prems" show ?thesis
            by (simp add: cols_loop.simps [of line c colEnd acc] spec_row_text_def
                  cells_between_step [of c colEnd line] render_cell_def)
        next
          case False
          have f: "fromCodePoint (codepoint cell) = Inr [codepoint cell]"
            using v by (simp add: fromCodePoint_def)
          from le Some w False f "1.IH"(3) [OF le Some w False f] "1.prems" show ?thesis
            by (simp add: cols_loop.simps [of line c colEnd acc] spec_row_text_def
                  cells_between_step [of c colEnd line] render_cell_def)
        qed
      qed
    qed
  qed
qed


lemma valid_codepoints_step:
  "r \<le> e \<Longrightarrow>
     valid_codepoints w r e =
       ((case getLine w r of None \<Rightarrow> True
         | Some line \<Rightarrow> list_all (\<lambda>c. codepoint c \<le> 0x10FFFF) line) \<and>
        valid_codepoints w (r + 1) e)"
  by (simp add: valid_codepoints_def upto_rec1 [of r e])

lemma rows_loop_pieces:
  "valid_codepoints w r (endRow cs) \<Longrightarrow>
     rows_loop w cs r acc = Inr (acc @ concat (map (row_piece w cs) [r..endRow cs]))"
proof (induction w cs r acc rule: rows_loop.induct)
  case (1 w cs r acc)
  show ?case
  proof (cases "r \<le> endRow cs")
    case False
    then show ?thesis by (simp add: rows_loop.simps [of w cs r acc])
  next
    case True
    note le = this
    from "1.prems" le have rest: "valid_codepoints w (r + 1) (endRow cs)"
      by (simp add: valid_codepoints_step)
    show ?thesis
    proof (cases "getLine w r")
      case None
      then have piece: "row_piece w cs r = []" by (simp add: row_piece_def)
      from le None "1.IH"(1) [OF le None rest] show ?thesis
        by (simp add: rows_loop.simps [of w cs r acc] upto_rec1 [of r "endRow cs"] piece)
    next
      case (Some line)
      from "1.prems" le Some have ok: "list_all (\<lambda>c. codepoint c \<le> 0x10FFFF) line"
        by (simp add: valid_codepoints_step)
      let ?c0 = "if r = startRow cs then startCol cs else 0"
      let ?c1 = "if r = endRow cs then endCol cs else int (length line) - 1"
      have inner: "cols_loop line ?c0 ?c1 acc = Inr (acc @ spec_row_text line ?c0 ?c1)"
        using ok by (rule cols_loop_spec)
      from "1.IH"(2) [OF le Some inner rest]
      have "rows_loop w cs (r + 1)
              (if r < endRow cs then (acc @ spec_row_text line ?c0 ?c1) @ [10]
               else acc @ spec_row_text line ?c0 ?c1) =
            Inr ((if r < endRow cs then (acc @ spec_row_text line ?c0 ?c1) @ [10]
                  else acc @ spec_row_text line ?c0 ?c1) @
                 concat (map (row_piece w cs) [r + 1..endRow cs]))" .
      moreover have piece: "row_piece w cs r =
          spec_row_text line ?c0 ?c1 @ (if r < endRow cs then [10] else [])"
        using Some by (simp add: row_piece_def spec_row_def)
      ultimately show ?thesis
        using le Some inner
        by (simp add: rows_loop.simps [of w cs r acc] upto_rec1 [of r "endRow cs"] piece)
    qed
  qed
qed

lemma rows_present_step:
  "r \<le> e \<Longrightarrow> rows_present w r e = (getLine w r \<noteq> None \<and> rows_present w (r + 1) e)"
  by (simp add: rows_present_def upto_rec1 [of r e])

lemma join_newline_Cons: "ys \<noteq> [] \<Longrightarrow> join_newline (x # ys) = x @ [10] @ join_newline ys"
  by (cases ys) simp_all

lemma pieces_join:
  "rows_present w r (endRow cs) \<Longrightarrow>
     concat (map (row_piece w cs) [r..endRow cs]) = join_newline (map (spec_row w cs) [r..endRow cs])"
proof (induction "nat (endRow cs - r)" arbitrary: r)
  case 0
  show ?case
  proof (cases "r = endRow cs")
    case True
    with "0.prems" show ?thesis
      by (auto simp: rows_present_def row_piece_def)
  next
    case False
    with "0.hyps" have "endRow cs < r" by simp
    then show ?thesis by simp
  qed
next
  case (Suc n)
  then have lt: "r < endRow cs" by simp
  then have le: "r \<le> endRow cs" and le2: "r + 1 \<le> endRow cs" by simp_all
  from Suc.prems le have here: "getLine w r \<noteq> None" and rest: "rows_present w (r + 1) (endRow cs)"
    by (simp_all add: rows_present_step)
  from Suc.hyps(2) have "n = nat (endRow cs - (r + 1))" by simp
  from Suc.hyps(1) [OF this rest]
  have ih: "concat (map (row_piece w cs) [r + 1..endRow cs]) =
              join_newline (map (spec_row w cs) [r + 1..endRow cs])" .
  have ne: "map (spec_row w cs) [r + 1..endRow cs] \<noteq> []"
    using le2 by simp
  have "join_newline (map (spec_row w cs) [r..endRow cs]) =
          spec_row w cs r @ [10] @ join_newline (map (spec_row w cs) [r + 1..endRow cs])"
    using join_newline_Cons [OF ne, of "spec_row w cs r"] by (simp add: upto_rec1 [OF le])
  moreover have "concat (map (row_piece w cs) [r..endRow cs]) =
          spec_row w cs r @ [10] @ concat (map (row_piece w cs) [r + 1..endRow cs])"
  proof -
    from here lt have "row_piece w cs r = spec_row w cs r @ [10]"
      by (auto simp: row_piece_def)
    then show ?thesis by (simp add: upto_rec1 [OF le])
  qed
  ultimately show ?case by (simp add: ih)
qed

lemma normalized_order:
  "normalizeSelection s = Some cs \<Longrightarrow> startRow cs \<le> endRow cs"
  by (auto simp: normalizeSelection_def split: option.splits if_splits)


lemma getSelection_pieces:
  assumes "normalizeSelection s = Some cs"
    and "valid_codepoints (sm_wasmTerm s) (startRow cs) (endRow cs)"
  shows "getSelection s =
           Inr (concat (map (row_piece (sm_wasmTerm s) cs) [startRow cs..endRow cs]))"
  using rows_loop_pieces [OF assms(2), of "[]"] assms(1) by (simp add: getSelection_def)

lemma upto_small: "[0..1::int] = [0, 1]" "[0..3::int] = [0, 1, 2, 3]"
  by (simp_all add: upto_rec1)

lemma demo_line:
  "0 \<le> r \<Longrightarrow> r < n \<Longrightarrow>
     getLine (demo_grid n) r = Some demo_cells"
  "n \<le> r \<Longrightarrow> getLine (demo_grid n) r = None"
  by (simp_all add: getLine_def demo_grid_def)

lemma demo_selection:
  "normalizeSelection ((selectAll (new_manager (demo_grid 2)))\<lparr>sm_wasmTerm := w\<rparr>) =
     Some \<lparr>startCol = 0, startRow = 0, endCol = 3, endRow = 1\<rparr>"
  by (simp add: normalizeSelection_def selectAll_def new_manager_def fire_selectionChanged_def
        demo_grid_def)

lemma demo_selection_plain:
  "normalizeSelection (selectAll (new_manager (demo_grid 2))) =
     Some \<lparr>startCol = 0, startRow = 0, endCol = 3, endRow = 1\<rparr>"
  by (simp add: normalizeSelection_def selectAll_def new_manager_def fire_selectionChanged_def
        demo_grid_def)

lemma demo_row_text:
  "spec_row_text demo_cells 0 3 = [97, 20013, 32]"
  "int (length demo_cells) - 1 = 3"
  "list_all (\<lambda>c. codepoint c \<le> 0x10FFFF) demo_cells"
  by (simp_all add: spec_row_text_def cells_between_def render_cell_def upto_small demo_cells_def)

text \<open>
  Claim C8 says that for every non-empty normalized selection the rows are joined by single
  newlines with none after the last. Select all of a grid of two rows and let the grid
  shrink to one row: the second row of the range is no longer provided, and the extracted
  text ends with the newline that followed the first.
\<close>

theorem shrunk_grid_trailing_newline:
  "getSelection ((selectAll (new_manager (demo_grid 2)))\<lparr>sm_wasmTerm := demo_grid 1\<rparr>) =
     Inr [97, 20013, 32, 10]"
proof -
  let ?s = "(selectAll (new_manager (demo_grid 2)))\<lparr>sm_wasmTerm := demo_grid 1\<rparr>"
  let ?cs = "\<lparr>startCol = 0, startRow = 0, endCol = 3, endRow = 1\<rparr>"
  have n: "normalizeSelection ?s = Some ?cs" by (rule demo_selection)
  have v: "valid_codepoints (sm_wasmTerm ?s) (startRow ?cs) (endRow ?cs)"
    by (simp add: valid_codepoints_def demo_line upto_small demo_row_text)
  have "getSelection ?s = Inr (concat (map (row_piece (demo_grid 1) ?cs) [0..1]))"
    using getSelection_pieces [OF n v] by simp
  then show ?thesis
    by (simp add: row_piece_def spec_row_def demo_line demo_row_text upto_small)
qed

text \<open>
  Claim C8, amended. For every non-empty normalized selection over cells with valid code
  points, \<^verbatim>\<open>getSelection\<close> walks the rows of the range in order and skips a row that the
  grid does not provide together with its newline; when the grid provides every row of the
  range, the result is the text of the specification: the first row clipped at the start
  column, the last at the end column, every other row in full, zero-width cells skipped,
  empty cells as spaces, rows joined by single newlines with none after the last.
\<close>

theorem selection_text_extraction:
  assumes "normalizeSelection s = Some cs"
    and "valid_codepoints (sm_wasmTerm s) (startRow cs) (endRow cs)"
  shows "getSelection s =
           Inr (concat (map (row_piece (sm_wasmTerm s) cs) [startRow cs..endRow cs])) \<and>
         (rows_present (sm_wasmTerm s) (startRow cs) (endRow cs) \<longrightarrow>
            getSelection s = Inr (spec_selection_text (sm_wasmTerm s) cs))"
  using getSelection_pieces [OF assms] pieces_join [of "sm_wasmTerm s" "startRow cs" cs]
  by (simp add: spec_selection_text_def)

theorem selection_text_extraction_witness:
  "getSelection (selectAll (new_manager (demo_grid 2))) = Inr [97, 20013, 32, 10, 97, 20013, 32]"
proof -
  let ?s = "selectAll (new_manager (demo_grid 2))"
  let ?cs = "\<lparr>startCol = 0, startRow = 0, endCol = 3, endRow = 1\<rparr>"
  have w: "sm_wasmTerm ?s = demo_grid 2"
    by (simp add: selectAll_def new_manager_def fire_selectionChanged_def)
  have n: "normalizeSelection ?s = Some ?cs" by (rule demo_selection_plain)
  have v: "valid_codepoints (sm_wasmTerm ?s) (startRow ?cs) (endRow ?cs)"
    by (simp add: w valid_codepoints_def demo_line upto_small demo_row_text)
  have p: "rows_present (sm_wasmTerm ?s) (startRow ?cs) (endRow ?cs)"
    by (simp add: w rows_present_def demo_line upto_small)
  have "getSelection ?s = Inr (spec_selection_text (demo_grid 2) ?cs)"
    using selection_text_extraction [OF n v] p unfolding w by blast
  then show ?thesis
    by (simp add: spec_selection_text_def spec_row_def demo_line demo_row_text upto_small)
qed

section \<open>Viewport: one animation step when the duration spans more than one frame\<close>

text \<open>
  With a duration above \<open>50/3\<close> ms (one frame at 60 Hz) the move ratio lies strictly
  between 0 and 1: a step that does not snap multiplies the distance to the target by
  \<open>(1 / frames)\<^sup>2\<close>, so the offset moves towards the target and stays between its old
  value and the target.
\<close>

lemma move_ratio_bounds:
  fixes d :: rat
  assumes "50 / 3 < d"
  shows "0 < (1 / ((d / 1000) * 60)) ^ 2 \<and> (1 / ((d / 1000) * 60)) ^ 2 < 1"
proof -
  let ?f = "(d / 1000) * 60"
  from assms have f: "1 < ?f" by simp
  then have pos: "0 < ?f" by linarith
  from pos have p: "0 < 1 / ?f" by (simp only: zero_less_divide_1_iff)
  from f pos have l: "1 / ?f < 1" by (simp only: divide_less_eq_1_pos)
  have "(1 / ?f) * (1 / ?f) < 1 * 1"
    by (rule mult_strict_mono [OF l l zero_less_one less_imp_le [OF p]])
  moreover have "0 < (1 / ?f) * (1 / ?f)" by (rule mult_pos_pos [OF p p])
  ultimately show ?thesis by (simp only: power2_eq_square mult_1)
qed

lemma animate_step_towards_target:
  assumes w: "wasmTerm t \<noteq> None" and st: "scrollAnimationStartTime t \<noteq> None"
    and d: "50 / 3 < duration_of t"
    and far: "\<not> \<bar>targetViewportY t - viewportY t\<bar> < 1 / 100"
  shows "\<exists>t'. animateScroll t = Some t' \<and> targetViewportY t' = targetViewportY t \<and>
           targetViewportY t' - viewportY t' =
             (targetViewportY t - viewportY t) * (1 / ((duration_of t / 1000) * 60)) ^ 2"
proof -
  let ?q = "(1 / ((duration_of t / 1000) * 60)) ^ 2"
  let ?y = "viewportY t + (targetViewportY t - viewportY t) * (1 - ?q)"
  from d have nz: "(duration_of t / 1000) * 60 \<noteq> 0" by simp
  have eq: "animateScroll t = Some (requestAnimationFrame (showScrollbar_if_scrollback
       (fire_scroll (t\<lparr>viewportY := ?y\<rparr>) (floor_number ?y))))"
    using far nz by (simp add: animateScroll_def Let_def w st)
  show ?thesis
    unfolding eq
    by (simp add: requestAnimationFrame_def fire_scroll_def algebra_simps)
qed


lemma between_arith:
  fixes v T q :: rat
  assumes "0 < q" and "q < 1"
  shows "min v T \<le> T - (T - v) * q \<and> T - (T - v) * q \<le> max v T"
proof (cases "v \<le> T")
  case True
  then have a: "0 \<le> (T - v) * q" using assms(1) by simp
  have "(T - v) * q \<le> (T - v) * 1"
    using True assms(2) by (intro mult_left_mono) simp_all
  then have b: "(T - v) * q \<le> T - v" by simp
  from True have m: "min v T = v" and M: "max v T = T" by (simp_all add: min_def max_def)
  have "v \<le> T - (T - v) * q" using b by linarith
  moreover have "T - (T - v) * q \<le> T" using a by linarith
  ultimately show ?thesis unfolding m M by (rule conjI)
next
  case False
  then have neg: "T - v \<le> 0" by simp
  then have a: "(T - v) * q \<le> 0" using assms(1) by (simp add: mult_nonpos_nonneg)
  have "(T - v) * 1 \<le> (T - v) * q"
    using neg assms(2) by (intro mult_left_mono_neg) simp_all
  then have b: "T - v \<le> (T - v) * q" by simp
  from False have m: "min v T = T" and M: "max v T = v" by (simp_all add: min_def max_def)
  have "T \<le> T - (T - v) * q" using a by linarith
  moreover have "T - (T - v) * q \<le> v" using b by linarith
  ultimately show ?thesis unfolding m M by (rule conjI)
qed

lemma animate_step_no_overshoot:
  assumes w: "wasmTerm t \<noteq> None" and st: "scrollAnimationStartTime t \<noteq> None"
    and d: "50 / 3 < duration_of t"
    and far: "\<not> \<bar>targetViewportY t - viewportY t\<bar> < 1 / 100"
  shows "\<exists>t'. animateScroll t = Some t' \<and>
           \<bar>targetViewportY t' - viewportY t'\<bar> < \<bar>targetViewportY t - viewportY t\<bar> \<and>
           min (viewportY t) (targetViewportY t) \<le> viewportY t' \<and>
           viewportY t' \<le> max (viewportY t) (targetViewportY t)"
proof -
  let ?q = "(1 / ((duration_of t / 1000) * 60)) ^ 2"
  let ?D = "targetViewportY t - viewportY t"
  from animate_step_towards_target [OF assms] obtain t' where
    a: "animateScroll t = Some t'" and tg: "targetViewportY t' = targetViewportY t"
    and e: "targetViewportY t' - viewportY t' = ?D * ?q" by blast
  from move_ratio_bounds [OF d] have q0: "0 < ?q" and q1: "?q < 1" by simp_all
  from far have nz: "?D \<noteq> 0" by auto
  have v: "viewportY t' = targetViewportY t - ?D * ?q" using e tg by simp
  have abs: "\<bar>?D * ?q\<bar> < \<bar>?D\<bar>"
  proof -
    have "\<bar>?D * ?q\<bar> = \<bar>?D\<bar> * ?q" using q0 by (simp add: abs_mult)
    also have "\<dots> < \<bar>?D\<bar> * 1" using q1 nz by (intro mult_strict_left_mono) simp_all
    finally show ?thesis by simp
  qed
  have between: "min (viewportY t) (targetViewportY t) \<le> viewportY t' \<and>
           viewportY t' \<le> max (viewportY t) (targetViewportY t)"
    unfolding v by (rule between_arith [OF q0 q1])
  from a abs between e show ?thesis by simp
qed

end
